theory Spec2Isabelle
  imports Main
begin

section \<open>JavaScript strings\<close>

text \<open>
  A JavaScript string is a sequence of UTF-16 code units. The model uses \<^typ>\<open>string\<close>:
  a \<^typ>\<open>char\<close> stands for a code unit below 256 (the Latin-1 range), which covers every
  literal of the program. \<open>String.prototype.trim\<close> removes white space and line
  terminators from both ends; below 256 these are TAB, LF, VT, FF, CR, SPACE and NBSP.
\<close>

definition is_ws :: "char \<Rightarrow> bool" where
  "is_ws c \<longleftrightarrow> c \<in> set [CHR 0x09, CHR 0x0A, CHR 0x0B, CHR 0x0C, CHR 0x0D, CHR 0x20, CHR 0xA0]"

definition trim :: "string \<Rightarrow> string" where
  "trim s = rev (dropWhile is_ws (rev (dropWhile is_ws s)))"

text \<open>\<open>Array.prototype.join\<close> on an array of strings.\<close>

fun join :: "string \<Rightarrow> string list \<Rightarrow> string" where
  "join sep [] = []"
| "join sep [x] = x"
| "join sep (x # y # ys) = x @ sep @ join sep (y # ys)"

text \<open>\<open>String.prototype.split\<close> with a one-character separator: the result is never empty.\<close>

fun split :: "char \<Rightarrow> string \<Rightarrow> string list" where
  "split c [] = [[]]"
| "split c (x # xs) =
     (if x = c then [] # split c xs
      else (case split c xs of [] \<Rightarrow> [[x]] | w # ws \<Rightarrow> (x # w) # ws))"

text \<open>\<open>String.prototype.includes\<close>: the argument occurs as a contiguous substring.\<close>

fun includes_str :: "string \<Rightarrow> string \<Rightarrow> bool" where
  "includes_str [] n = (n = [])"
| "includes_str (c # cs) n = (take (length n) (c # cs) = n \<or> includes_str cs n)"

text \<open>
  \<open>String.prototype.toLowerCase\<close> on code units below 256: A-Z and the Latin-1 capitals
  (0xC0-0xDE without the multiplication sign 0xD7) move up by 32.
\<close>

definition lower_char :: "char \<Rightarrow> char" where
  "lower_char c =
     (let n = (of_char c :: nat)
      in if (65 \<le> n \<and> n \<le> 90) \<or> (192 \<le> n \<and> n \<le> 222 \<and> n \<noteq> 215)
         then char_of (n + 32) else c)"

definition toLowerCase :: "string \<Rightarrow> string" where
  "toLowerCase s = map lower_char s"

section \<open>Request orchestrator (\<open>scrapeWithGrounding\<close>)\<close>

text \<open>
  A value caught by \<open>catch (error)\<close>. The handlers read \<open>error?.status\<close> (compared with
  the number 503 by \<open>===\<close>), \<open>error.code\<close> (compared with the string \<open>'ENOENT'\<close>),
  \<open>error instanceof Error\<close> and \<open>error.message\<close>. \<open>status\<close> is \<open>None\<close> when the
  property is absent or not a number, \<open>code\<close> is \<open>None\<close> when it is absent or not a string.
\<close>

record js_error =
  status :: "int option"
  code :: "string option"
  is_Error :: bool
  message :: string

text \<open>
  The part of the backend's response that the orchestrator reads: \<open>response.text\<close> and
  \<open>response.candidates?.[0]?.groundingMetadata?.groundingChunks\<close> (\<open>None\<close> when any link of
  the optional chain is undefined). A chunk may lack \<open>web\<close>, and a \<open>web\<close> entry may lack
  \<open>uri\<close> or \<open>title\<close>.
\<close>

record web =
  uri :: "string option"
  title :: "string option"

record chunk =
  web :: "web option"

record response =
  response_text :: string
  groundingChunks :: "chunk list option"

datatype outcome = Returns response | Throws js_error

text \<open>
  The backend is opaque: \<open>be i q\<close> is what the \<open>i\<close>-th call (counted from 0 within one
  invocation) of \<open>ai.models.generateContent\<close> with contents \<open>q\<close> does.
\<close>

type_synonym backend = "nat \<Rightarrow> string \<Rightarrow> outcome"

record scrape_result =
  result_text :: string
  sources :: "web list"

text \<open>
  What the invocation does to the outside, in order of occurrence. Colours (\<open>chalk\<close>) are
  dropped from console lines. The system instruction sent with every request is a constant
  of the program and is not recorded.
\<close>

datatype effect =
    Request string  \<comment> \<open>\<open>ai.models.generateContent\<close> with these \<open>contents\<close>\<close>
  | Sleep nat  \<comment> \<open>\<open>setTimeout(resolve, delay)\<close>, awaited\<close>
  | Log_retry nat nat nat
      \<comment> \<open>\<open>Model is overloaded. Retrying in ${delay / 1000}s... (${i + 1}/${MAX_RETRIES})\<close>,
          holding \<open>delay\<close>, \<open>i + 1\<close> and \<open>MAX_RETRIES\<close>\<close>
  | Log_error string js_error  \<comment> \<open>\<open>console.error(label, error)\<close>\<close>
  | Log string  \<comment> \<open>\<open>console.log\<close> or \<open>console.error\<close> of one line\<close>
  | Show_processing string  \<comment> \<open>\<open>showProcessingAnimation(text)\<close>\<close>
  | Stop_processing  \<comment> \<open>\<open>stopProcessingAnimation()\<close>\<close>
  | Display string scrape_result  \<comment> \<open>\<open>displayResults(title, result)\<close>\<close>
  | Show_help
  | Clear_screen
  | Show_welcome

definition MAX_RETRIES :: nat where
  "MAX_RETRIES = 3"

definition siteSearchQuery :: "string list \<Rightarrow> string" where
  "siteSearchQuery sites = join '' OR '' (map (\<lambda>site. ''site:'' @ trim site) sites)"

definition excludeQuery :: "string list \<Rightarrow> string" where
  "excludeQuery excludedSites = join '' '' (map (\<lambda>site. ''-site:'' @ trim site) excludedSites)"

definition fullQuery :: "string \<Rightarrow> string list \<Rightarrow> string list \<Rightarrow> string" where
  "fullQuery query sites excludedSites =
     trim (query @ '' '' @ siteSearchQuery sites @ '' '' @ excludeQuery excludedSites)"

text \<open>
  The filter \<open>!!web && !!web.uri\<close>: an entry passes when \<open>web\<close> is present and its
  \<open>uri\<close> is a non-empty string (the empty string is falsy).
\<close>

definition has_uri :: "web option \<Rightarrow> bool" where
  "has_uri w = (case w of None \<Rightarrow> False
     | Some x \<Rightarrow> (case uri x of None \<Rightarrow> False | Some u \<Rightarrow> u \<noteq> []))"

text \<open>The callback of \<open>reduce\<close>: push \<open>current\<close> unless \<open>acc\<close> holds an item of the same uri.\<close>

definition dedup_step :: "web list \<Rightarrow> web \<Rightarrow> web list" where
  "dedup_step acc current =
     (if find (\<lambda>item. uri item = uri current) acc = None then acc @ [current] else acc)"

definition extract_sources :: "chunk list option \<Rightarrow> web list" where
  "extract_sources gc = (case gc of None \<Rightarrow> []
     | Some chunks \<Rightarrow> foldl dedup_step [] (map the (filter has_uri (map web chunks))))"

definition overloaded_msg :: string where
  "overloaded_msg = ''The model is currently overloaded. Please try again later.''"

definition invalid_key_msg :: string where
  "invalid_key_msg =
     ''The provided API key is not valid. Please check your environment configuration.''"

definition upstream_msg :: string where
  "upstream_msg = ''Failed to fetch data from Gemini API.''"

definition exhausted_msg :: string where
  "exhausted_msg = ''Failed to fetch data from Gemini API after multiple retries.''"

text \<open>
  The tail of the \<open>catch\<close> block, after the retry test has failed: the message of the
  \<open>Error\<close> that is thrown. The invalid-key test comes before the 503 test.
\<close>

definition rethrow_message :: "js_error \<Rightarrow> string" where
  "rethrow_message e =
     (if is_Error e \<and> includes_str (message e) ''API key not valid'' then invalid_key_msg
      else if status e = Some 503 then overloaded_msg
      else upstream_msg)"

text \<open>
  The \<open>for\<close> loop, entered with counter \<open>i\<close>, current \<open>delay\<close> and the effects so far. The
  result is \<open>Inl m\<close> for \<open>throw new Error(m)\<close> and \<open>Inr r\<close> for \<open>return r\<close>.
\<close>

function attempts ::
  "backend \<Rightarrow> string \<Rightarrow> string list \<Rightarrow> string list \<Rightarrow> nat \<Rightarrow> nat \<Rightarrow> effect list
     \<Rightarrow> (string + scrape_result) \<times> effect list" where
  "attempts be query sites excludedSites i delay tr =
     (if i < MAX_RETRIES then
        (let q = fullQuery query sites excludedSites; tr1 = tr @ [Request q]
         in case be i q of
              Returns r \<Rightarrow>
                (Inr \<lparr>result_text = response_text r, sources = extract_sources (groundingChunks r)\<rparr>, tr1)
            | Throws e \<Rightarrow>
                if status e = Some 503 \<and> i < MAX_RETRIES - 1
                then attempts be query sites excludedSites (i + 1) (delay * 2)
                       (tr1 @ [Log_retry delay (i + 1) MAX_RETRIES, Sleep delay])
                else (Inl (rethrow_message e), tr1 @ [Log_error ''Error calling Gemini API:'' e]))
      else (Inl exhausted_msg, tr))"
  by pat_completeness auto
termination
  by (relation "measure (\<lambda>(be, query, sites, excludedSites, i, delay, tr). MAX_RETRIES - i)") auto

declare attempts.simps [simp del]

section \<open>Session state and its persistence (terminal variant)\<close>

text \<open>
  The module-level variable \<open>state\<close>. \<open>morningQuery\<close> is \<open>None\<close> when the object has no
  such property (reading it gives \<open>undefined\<close>), which \<open>loadState\<close> can bring about.
\<close>

record session =
  sites :: "string list"
  excludedSites :: "string list"
  morningQuery :: "string option"

definition initial_state :: session where
  "initial_state =
     \<lparr>sites = [], excludedSites = [],
      morningQuery = Some ''What are the top 3 latest news in technology?''\<rparr>"

text \<open>
  What \<open>JSON.parse\<close> returns for the state file: an object in which each of the three
  properties is present with a value of its type, or absent. Files that parse to another
  shape are outside the model.
\<close>

record persisted =
  p_sites :: "string list option"
  p_excludedSites :: "string list option"
  p_morningQuery :: "string option"

text \<open>
  \<open>JSON.parse\<close> and \<open>JSON.stringify\<close> belong to the platform and are parameters:
  \<open>JSON_parse data\<close> is \<open>Inl m\<close> when \<open>JSON.parse\<close> throws a \<open>SyntaxError\<close> with message
  \<open>m\<close>, and \<open>JSON_stringify st\<close> is the text of \<open>JSON.stringify(state, null, 2)\<close>.
\<close>

type_synonym json_parse = "string \<Rightarrow> string + persisted"
type_synonym json_stringify = "session \<Rightarrow> string"

text \<open>
  What the platform promises of \<open>JSON.parse(JSON.stringify(state, null, 2))\<close>: an object with
  the same properties; a property whose value is \<open>undefined\<close> is left out of the text.
\<close>

definition json_of_state :: "session \<Rightarrow> persisted" where
  "json_of_state st =
     \<lparr>p_sites = Some (sites st), p_excludedSites = Some (excludedSites st),
      p_morningQuery = morningQuery st\<rparr>"

definition SyntaxError :: "string \<Rightarrow> js_error" where
  "SyntaxError m = \<lparr>status = None, code = None, is_Error = True, message = m\<rparr>"

text \<open>
  The process and its surroundings: the variable \<open>state\<close>; the file \<open>scraper-state.json\<close>,
  \<open>Inl e\<close> when \<open>fs.readFile\<close> throws \<open>e\<close> (a missing file throws with code \<open>ENOENT\<close>) and
  \<open>Inr data\<close> when it returns \<open>data\<close>; the error that \<open>fs.writeFile\<close> throws, if it
  does; and the effects so far.
\<close>

record world =
  state :: session
  state_file :: "js_error + string"
  write_error :: "js_error option"
  trace :: "effect list"

definition emit :: "effect \<Rightarrow> world \<Rightarrow> world" where
  "emit e w = w\<lparr>trace := trace w @ [e]\<rparr>"

text \<open>The object literal \<open>{ sites: [], excludedSites: [], ...loadedState }\<close>.\<close>

definition spread_loaded :: "persisted \<Rightarrow> session" where
  "spread_loaded loadedState =
     \<lparr>sites = (case p_sites loadedState of None \<Rightarrow> [] | Some x \<Rightarrow> x),
      excludedSites = (case p_excludedSites loadedState of None \<Rightarrow> [] | Some x \<Rightarrow> x),
      morningQuery = p_morningQuery loadedState\<rparr>"

text \<open>The \<open>try\<close> block of \<open>loadState\<close>: \<open>Inl error\<close> when it throws.\<close>

definition loadState_try :: "json_parse \<Rightarrow> world \<Rightarrow> js_error + world" where
  "loadState_try JSON_parse w =
     (case state_file w of
        Inl error \<Rightarrow> Inl error
      | Inr data \<Rightarrow>
          (case JSON_parse data of
             Inl m \<Rightarrow> Inl (SyntaxError m)
           | Inr loadedState \<Rightarrow> Inr (w\<lparr>state := spread_loaded loadedState\<rparr>)))"

text \<open>\<open>loadState\<close>: \<open>Inl\<close> would be an exception leaving the function.\<close>

definition loadState :: "json_parse \<Rightarrow> world \<Rightarrow> js_error + world" where
  "loadState JSON_parse w =
     (case loadState_try JSON_parse w of
        Inr w' \<Rightarrow> Inr w'
      | Inl error \<Rightarrow>
          Inr (if code error \<noteq> Some ''ENOENT''
               then emit (Log_error ''Error loading state:'' error) w
               else w))"

definition saveState :: "json_stringify \<Rightarrow> world \<Rightarrow> world" where
  "saveState JSON_stringify w =
     (case write_error w of
        None \<Rightarrow> w\<lparr>state_file := Inr (JSON_stringify (state w))\<rparr>
      | Some error \<Rightarrow> emit (Log_error ''Error saving state:'' error) w)"

text \<open>
  A new process on the same file system: the module initialiser sets \<open>state\<close>, nothing has
  happened yet, and \<open>main\<close> awaits \<open>loadState()\<close> before it reads a command.
\<close>

definition restart :: "world \<Rightarrow> world" where
  "restart w = w\<lparr>state := initial_state, trace := []\<rparr>"

text \<open>
  \<open>scrapeWithGrounding(query, sites, excludedSites)\<close> in the process: the loop starts with
  \<open>i = 0\<close> and \<open>delay = 1000\<close>. The function runs in the module that holds \<open>state\<close>, so
  the model hands it the whole world and takes a world back.
\<close>

definition scrapeWithGrounding ::
  "backend \<Rightarrow> string \<Rightarrow> string list \<Rightarrow> string list \<Rightarrow> world
     \<Rightarrow> (string + scrape_result) \<times> world" where
  "scrapeWithGrounding be query ss es w =
     (case attempts be query ss es 0 1000 (trace w) of (r, tr) \<Rightarrow> (r, w\<lparr>trace := tr\<rparr>))"

section \<open>Command dispatcher (terminal variant, \<open>processCommand\<close>)\<close>

text \<open>
  \<open>args.forEach(s => current.includes(s) ? duplicates.push(s) : added.push(s))\<close>, started
  with both arrays empty; the result is \<open>(added, duplicates)\<close>.
\<close>

definition classify_args :: "string list \<Rightarrow> string list \<Rightarrow> string list \<times> string list" where
  "classify_args current args =
     foldl (\<lambda>(added, duplicates) s.
              if s \<in> set current then (added, duplicates @ [s]) else (added @ [s], duplicates))
       ([], []) args"

definition cmd_add_site :: "json_stringify \<Rightarrow> string list \<Rightarrow> world \<Rightarrow> world" where
  "cmd_add_site JSON_stringify args w =
     (if length args > 0 then
        (case classify_args (sites (state w)) args of
           (added, duplicates) \<Rightarrow>
             (let w1 = (if length added > 0
                        then emit (Log (''Priority sites added: '' @ join '', '' added))
                               (saveState JSON_stringify
                                  (w\<lparr>state := (state w)\<lparr>sites := sites (state w) @ added\<rparr>\<rparr>))
                        else w)
              in if length duplicates > 0
                 then emit (Log (''Sites already existed: '' @ join '', '' duplicates)) w1
                 else w1))
      else emit (Log ''Usage: add-site <url1> [url2]...'') w)"

definition cmd_list_sites :: "world \<Rightarrow> world" where
  "cmd_list_sites w =
     (if length (sites (state w)) > 0
      then foldl (\<lambda>w' site. emit (Log (''- '' @ site)) w') (emit (Log ''Priority sites:'') w)
             (sites (state w))
      else emit (Log ''No priority sites saved.'') w)"

definition cmd_remove_site :: "json_stringify \<Rightarrow> string list \<Rightarrow> world \<Rightarrow> world" where
  "cmd_remove_site JSON_stringify args w =
     (case args of
        [] \<Rightarrow> emit (Log ''Usage: remove-site <url>'') w
      | siteToRemove # _ \<Rightarrow>
          if siteToRemove \<in> set (sites (state w))
          then emit (Log (''Site removed: '' @ siteToRemove))
                 (saveState JSON_stringify
                    (w\<lparr>state := (state w)
                         \<lparr>sites := filter (\<lambda>site. site \<noteq> siteToRemove) (sites (state w))\<rparr>\<rparr>))
          else emit (Log (''Site not found in priority list: '' @ siteToRemove)) w)"

definition cmd_clear_sites :: "json_stringify \<Rightarrow> world \<Rightarrow> world" where
  "cmd_clear_sites JSON_stringify w =
     (if length (sites (state w)) > 0
      then emit (Log ''All priority sites have been cleared.'')
             (saveState JSON_stringify (w\<lparr>state := (state w)\<lparr>sites := []\<rparr>\<rparr>))
      else emit (Log ''Priority site list is already empty.'') w)"

definition cmd_add_exclude :: "json_stringify \<Rightarrow> string list \<Rightarrow> world \<Rightarrow> world" where
  "cmd_add_exclude JSON_stringify args w =
     (if length args > 0 then
        (case classify_args (excludedSites (state w)) args of
           (added, duplicates) \<Rightarrow>
             (let w1 = (if length added > 0
                        then emit (Log (''Excluded sites added: '' @ join '', '' added))
                               (saveState JSON_stringify
                                  (w\<lparr>state := (state w)
                                       \<lparr>excludedSites := excludedSites (state w) @ added\<rparr>\<rparr>))
                        else w)
              in if length duplicates > 0
                 then emit (Log (''Sites already excluded: '' @ join '', '' duplicates)) w1
                 else w1))
      else emit (Log ''Usage: add-exclude <url1> [url2]...'') w)"

definition cmd_list_excludes :: "world \<Rightarrow> world" where
  "cmd_list_excludes w =
     (if length (excludedSites (state w)) > 0
      then foldl (\<lambda>w' site. emit (Log (''- '' @ site)) w') (emit (Log ''Excluded sites:'') w)
             (excludedSites (state w))
      else emit (Log ''No sites excluded.'') w)"

definition cmd_remove_exclude :: "json_stringify \<Rightarrow> string list \<Rightarrow> world \<Rightarrow> world" where
  "cmd_remove_exclude JSON_stringify args w =
     (case args of
        [] \<Rightarrow> emit (Log ''Usage: remove-exclude <url>'') w
      | siteToRemove # _ \<Rightarrow>
          if siteToRemove \<in> set (excludedSites (state w))
          then emit (Log (''Site removed from exclusion list: '' @ siteToRemove))
                 (saveState JSON_stringify
                    (w\<lparr>state := (state w)
                         \<lparr>excludedSites :=
                            filter (\<lambda>site. site \<noteq> siteToRemove) (excludedSites (state w))\<rparr>\<rparr>))
          else emit (Log (''Site not found in exclusion list: '' @ siteToRemove)) w)"

definition cmd_clear_excludes :: "json_stringify \<Rightarrow> world \<Rightarrow> world" where
  "cmd_clear_excludes JSON_stringify w =
     (if length (excludedSites (state w)) > 0
      then emit (Log ''Exclusion list has been cleared.'')
             (saveState JSON_stringify (w\<lparr>state := (state w)\<lparr>excludedSites := []\<rparr>\<rparr>))
      else emit (Log ''Exclusion list is already empty.'') w)"

definition cmd_set_morning_query :: "json_stringify \<Rightarrow> string list \<Rightarrow> world \<Rightarrow> world" where
  \<open>cmd_set_morning_query JSON_stringify args w =
     (let query = join '' '' args
      in if query = [] then emit (Log ''Usage: set-morning-query <query>'') w
         else emit (Log (''Morning query set to: "'' @ query @ ''"''))
                (saveState JSON_stringify (w\<lparr>state := (state w)\<lparr>morningQuery := Some query\<rparr>\<rparr>)))\<close>

definition no_sites_msg :: string where
  \<open>no_sites_msg =
     ''Error: No priority sites to scrape. Please add a site using the "add-site <url>" command first.''\<close>

definition scrape_usage_msg :: string where
  "scrape_usage_msg = ''Usage: scrape <query>''"

text \<open>
  The end of the shared body of \<open>case 'scrape'\<close> and \<open>case 'scrape-morning'\<close>: the
  animation, the call inside \<open>try\<close>, and what is shown on either outcome.
\<close>

definition scrape_and_display :: "backend \<Rightarrow> bool \<Rightarrow> string \<Rightarrow> world \<Rightarrow> world" where
  \<open>scrape_and_display be isMorningScrape query w =
     (case scrapeWithGrounding be query (sites (state w)) (excludedSites (state w))
             (emit (Show_processing ''Scraping the web with Gemini...'') w) of
        (Inr result, w') \<Rightarrow>
          emit (Display (if isMorningScrape then ''Morning Scrape: "'' @ query @ ''"''
                         else ''Query: "'' @ query @ ''"'') result)
            (emit Stop_processing w')
      | (Inl m, w') \<Rightarrow> emit (Log (''Error: '' @ m)) (emit Stop_processing w'))\<close>

text \<open>
  The shared body of \<open>case 'scrape'\<close> and \<open>case 'scrape-morning'\<close>; \<open>c\<close> is
  \<open>cmd.toLowerCase()\<close>. \<open>!query\<close> holds for \<open>undefined\<close> and for the empty string.
\<close>

definition cmd_scrape :: "backend \<Rightarrow> string \<Rightarrow> string list \<Rightarrow> world \<Rightarrow> world" where
  "cmd_scrape be c args w =
     (if length (sites (state w)) = 0 then emit (Log no_sites_msg) w
      else
        (let isMorningScrape = (c = ''scrape-morning'');
             query = (if isMorningScrape then morningQuery (state w) else Some (join '' '' args))
         in case query of
              None \<Rightarrow> emit (Log scrape_usage_msg) w
            | Some q \<Rightarrow>
                if q = [] then emit (Log scrape_usage_msg) w
                else scrape_and_display be isMorningScrape q w))"

text \<open>
  \<open>processCommand(line)\<close>: the flag is the value the caller tests (\<open>true\<close> only for \<open>exit\<close>).
  \<open>split\<close> never returns the empty list; an empty \<open>cmd\<close> is the early \<open>return\<close>.
\<close>

definition processCommand ::
  "backend \<Rightarrow> json_stringify \<Rightarrow> string \<Rightarrow> world \<Rightarrow> bool \<times> world" where
  "processCommand be JSON_stringify line w =
     (case split CHR '' '' (trim line) of
        [] \<Rightarrow> (False, w)
      | cmd # args \<Rightarrow>
          if cmd = [] then (False, w)
          else
            (let c = toLowerCase cmd
             in if c = ''help'' then (False, emit Show_help w)
                else if c = ''add-site'' then (False, cmd_add_site JSON_stringify args w)
                else if c = ''list-sites'' then (False, cmd_list_sites w)
                else if c = ''remove-site'' then (False, cmd_remove_site JSON_stringify args w)
                else if c = ''clear-sites'' then (False, cmd_clear_sites JSON_stringify w)
                else if c = ''add-exclude'' then (False, cmd_add_exclude JSON_stringify args w)
                else if c = ''list-excludes'' then (False, cmd_list_excludes w)
                else if c = ''remove-exclude''
                  then (False, cmd_remove_exclude JSON_stringify args w)
                else if c = ''clear-excludes'' then (False, cmd_clear_excludes JSON_stringify w)
                else if c = ''set-morning-query''
                  then (False, cmd_set_morning_query JSON_stringify args w)
                else if c = ''scrape'' \<or> c = ''scrape-morning''
                  then (False, cmd_scrape be c args w)
                else if c = ''clear'' then (False, emit Show_welcome (emit Clear_screen w))
                else if c = ''exit'' then (True, w)
                else (False, emit (Log (''Command not found: '' @ cmd
                                         @ ''. Type 'help' for a list of commands.'')) w)))"

section \<open>Command dispatcher (browser variant, \<open>Terminal.tsx\<close>)\<close>

text \<open>
  The output of a command is a React node; the model keeps its text and structure and
  drops the styling.
\<close>

datatype node =
    Text string  \<comment> \<open>a string\<close>
  | Help_view  \<comment> \<open>the help text\<close>
  | Paragraphs "string list"  \<comment> \<open>a \<open>div\<close> of \<open>p\<close> elements\<close>
  | Listing string "string list"  \<comment> \<open>a heading and a bulleted list\<close>
  | Result_view "string option" scrape_result
      \<comment> \<open>an optional heading, the answer text and the sources\<close>

record history_item =
  h_command :: string
  h_output :: node
  h_isProcessing :: bool

text \<open>
  The component's state variables \<open>sites\<close>, \<open>excludedSites\<close>, \<open>morningQuery\<close> and
  \<open>history\<close>, and the effects of the calls of \<open>scrapeWithGrounding\<close>. The three hooks that
  copy the first three to \<open>localStorage\<close> are outside \<open>processCommand\<close>.
\<close>

record terminal =
  t_sites :: "string list"
  t_excludedSites :: "string list"
  t_morningQuery :: string
  t_history :: "history_item list"
  t_effects :: "effect list"

text \<open>
  The initialiser of \<open>morningQuery\<close>:
  \<open>localStorage.getItem('scraper-morning-query') || 'What are the top 3 ...'\<close>, where the
  stored item is \<open>null\<close> (\<open>None\<close>) or a string.
\<close>

definition initial_morningQuery :: "string option \<Rightarrow> string" where
  "initial_morningQuery stored =
     (case stored of
        None \<Rightarrow> ''What are the top 3 latest news in technology?''
      | Some s \<Rightarrow> if s = [] then ''What are the top 3 latest news in technology?'' else s)"

text \<open>
  \<open>scrapeWithGrounding\<close> of \<open>geminiService.ts\<close>: the same loop; the module has no access to
  the component's state.
\<close>

definition scrapeWithGrounding_web ::
  "backend \<Rightarrow> string \<Rightarrow> string list \<Rightarrow> string list \<Rightarrow> effect list
     \<Rightarrow> (string + scrape_result) \<times> effect list" where
  "scrapeWithGrounding_web be query ss es tr = attempts be query ss es 0 1000 tr"

definition web_add_site :: "string list \<Rightarrow> terminal \<Rightarrow> node \<times> terminal" where
  "web_add_site args t =
     (if length args > 0 then
        (case classify_args (t_sites t) args of
           (added, duplicates) \<Rightarrow>
             (Paragraphs
                ((if length added > 0 then [''Sites added: '' @ join '', '' added] else []) @
                 (if length duplicates > 0
                  then [''Sites already existed: '' @ join '', '' duplicates] else [])),
              if length added > 0 then t\<lparr>t_sites := t_sites t @ added\<rparr> else t))
      else (Text ''Usage: add-site <url1> [url2]...'', t))"

definition web_list_sites :: "terminal \<Rightarrow> node \<times> terminal" where
  "web_list_sites t =
     (if length (t_sites t) > 0 then (Listing ''Priority sites:'' (t_sites t), t)
      else (Text ''No priority sites saved.'', t))"

definition web_remove_site :: "string list \<Rightarrow> terminal \<Rightarrow> node \<times> terminal" where
  "web_remove_site args t =
     (case args of
        [] \<Rightarrow> (Text ''Usage: remove-site <url>'', t)
      | siteToRemove # _ \<Rightarrow>
          if siteToRemove \<in> set (t_sites t)
          then (Text (''Site removed: '' @ siteToRemove),
                t\<lparr>t_sites := filter (\<lambda>site. site \<noteq> siteToRemove) (t_sites t)\<rparr>)
          else (Text (''Site not found: '' @ siteToRemove), t))"

definition web_clear_sites :: "terminal \<Rightarrow> node \<times> terminal" where
  "web_clear_sites t =
     (if length (t_sites t) > 0
      then (Text ''All priority sites have been cleared.'', t\<lparr>t_sites := []\<rparr>)
      else (Text ''Priority site list is already empty.'', t))"

definition web_add_exclude :: "string list \<Rightarrow> terminal \<Rightarrow> node \<times> terminal" where
  "web_add_exclude args t =
     (if length args > 0 then
        (case classify_args (t_excludedSites t) args of
           (added, duplicates) \<Rightarrow>
             (Paragraphs
                ((if length added > 0
                  then [''Excluded sites added: '' @ join '', '' added] else []) @
                 (if length duplicates > 0
                  then [''Sites already excluded: '' @ join '', '' duplicates] else [])),
              if length added > 0 then t\<lparr>t_excludedSites := t_excludedSites t @ added\<rparr>
              else t))
      else (Text ''Usage: add-exclude <url1> [url2]...'', t))"

definition web_list_excludes :: "terminal \<Rightarrow> node \<times> terminal" where
  "web_list_excludes t =
     (if length (t_excludedSites t) > 0 then (Listing ''Excluded sites:'' (t_excludedSites t), t)
      else (Text ''No sites excluded.'', t))"

definition web_remove_exclude :: "string list \<Rightarrow> terminal \<Rightarrow> node \<times> terminal" where
  "web_remove_exclude args t =
     (case args of
        [] \<Rightarrow> (Text ''Usage: remove-exclude <url>'', t)
      | siteToRemove # _ \<Rightarrow>
          if siteToRemove \<in> set (t_excludedSites t)
          then (Text (''Site removed from exclusion list: '' @ siteToRemove),
                t\<lparr>t_excludedSites :=
                     filter (\<lambda>site. site \<noteq> siteToRemove) (t_excludedSites t)\<rparr>)
          else (Text (''Site not found in exclusion list: '' @ siteToRemove), t))"

definition web_clear_excludes :: "terminal \<Rightarrow> node \<times> terminal" where
  "web_clear_excludes t =
     (if length (t_excludedSites t) > 0
      then (Text ''Exclusion list has been cleared.'', t\<lparr>t_excludedSites := []\<rparr>)
      else (Text ''Exclusion list is already empty.'', t))"

definition web_no_sites_msg :: string where
  \<open>web_no_sites_msg =
     ''Error: No priority sites to scrape. Please add a site using "add-site <url>" first.''\<close>

definition web_scrape :: "backend \<Rightarrow> string list \<Rightarrow> terminal \<Rightarrow> node \<times> terminal" where
  "web_scrape be args t =
     (if length (t_sites t) = 0 then (Text web_no_sites_msg, t)
      else
        (let query = join '' '' args
         in if query = [] then (Text ''Usage: scrape <query>'', t)
            else
              (case scrapeWithGrounding_web be query (t_sites t) (t_excludedSites t)
                      (t_effects t) of
                 (Inr result, tr) \<Rightarrow> (Result_view None result, t\<lparr>t_effects := tr\<rparr>)
               | (Inl m, tr) \<Rightarrow> (Text (''Error: '' @ m), t\<lparr>t_effects := tr\<rparr>))))"

definition web_set_morning_query :: "string list \<Rightarrow> terminal \<Rightarrow> node \<times> terminal" where
  \<open>web_set_morning_query args t =
     (let query = join '' '' args
      in if query = [] then (Text ''Usage: set-morning-query <query>'', t)
         else (Text (''Morning query set to: "'' @ query @ ''"''), t\<lparr>t_morningQuery := query\<rparr>))\<close>

definition web_scrape_morning :: "backend \<Rightarrow> terminal \<Rightarrow> node \<times> terminal" where
  \<open>web_scrape_morning be t =
     (if length (t_sites t) = 0 then (Text web_no_sites_msg, t)
      else
        (case scrapeWithGrounding_web be (t_morningQuery t) (t_sites t) (t_excludedSites t)
                (t_effects t) of
           (Inr result, tr) \<Rightarrow>
             (Result_view (Some (''Morning Scrape Results for: "'' @ t_morningQuery t @ ''"''))
                result,
              t\<lparr>t_effects := tr\<rparr>)
         | (Inl m, tr) \<Rightarrow> (Text (''Error: '' @ m), t\<lparr>t_effects := tr\<rparr>)))\<close>

text \<open>
  The statements after the \<open>switch\<close>: every history item with this command text gets the
  output and stops processing.
\<close>

definition set_output :: "string \<Rightarrow> node \<times> terminal \<Rightarrow> terminal" where
  "set_output command r =
     (case r of
        (output, t) \<Rightarrow>
          t\<lparr>t_history :=
               map (\<lambda>item. if h_command item = command
                           then item\<lparr>h_output := output, h_isProcessing := False\<rparr> else item)
                 (t_history t)\<rparr>)"

text \<open>
  \<open>processCommand(command)\<close> of the component. \<open>clear\<close> empties the history and returns
  before the statements after the \<open>switch\<close>. (\<open>split\<close> never returns the empty list, so
  the first case does not arise.)
\<close>

definition processCommand_web :: "backend \<Rightarrow> string \<Rightarrow> terminal \<Rightarrow> terminal" where
  "processCommand_web be command t =
     (case split CHR '' '' (trim command) of
        [] \<Rightarrow> t
      | cmd # args \<Rightarrow>
          (let t1 = t\<lparr>t_history := t_history t @
                       [\<lparr>h_command = command, h_output = Text [], h_isProcessing = True\<rparr>]\<rparr>;
               c = toLowerCase cmd
           in if c = ''help'' then set_output command (Help_view, t1)
              else if c = ''add-site'' then set_output command (web_add_site args t1)
              else if c = ''list-sites'' then set_output command (web_list_sites t1)
              else if c = ''remove-site'' then set_output command (web_remove_site args t1)
              else if c = ''clear-sites'' then set_output command (web_clear_sites t1)
              else if c = ''add-exclude'' then set_output command (web_add_exclude args t1)
              else if c = ''list-excludes'' then set_output command (web_list_excludes t1)
              else if c = ''remove-exclude'' then set_output command (web_remove_exclude args t1)
              else if c = ''clear-excludes'' then set_output command (web_clear_excludes t1)
              else if c = ''scrape'' then set_output command (web_scrape be args t1)
              else if c = ''set-morning-query''
                then set_output command (web_set_morning_query args t1)
              else if c = ''scrape-morning'' then set_output command (web_scrape_morning be t1)
              else if c = ''clear'' then t1\<lparr>t_history := []\<rparr>
              else set_output command
                     (Text (''Command not found: '' @ cmd
                            @ ''. Type 'help' for a list of commands.''), t1)))"

section \<open>Observations and the specification's own definitions\<close>

text \<open>The contents of the requests and the delays of the sleeps in a sequence of effects.\<close>

fun requests :: "effect list \<Rightarrow> string list" where
  "requests [] = []"
| "requests (Request q # es) = q # requests es"
| "requests (_ # es) = requests es"

fun sleeps :: "effect list \<Rightarrow> nat list" where
  "sleeps [] = []"
| "sleeps (Sleep d # es) = d # sleeps es"
| "sleeps (_ # es) = sleeps es"

text \<open>
  The kinds of effect: the network call and the sleep, and the two console lines that
  \<open>scrapeWithGrounding\<close> writes (the retry notice and the error line).
\<close>

definition network_or_sleep :: "effect \<Rightarrow> bool" where
  "network_or_sleep e = (case e of Request _ \<Rightarrow> True | Sleep _ \<Rightarrow> True | _ \<Rightarrow> False)"

definition console_line :: "effect \<Rightarrow> bool" where
  "console_line e = (case e of Log_retry _ _ _ \<Rightarrow> True | Log_error _ _ \<Rightarrow> True | _ \<Rightarrow> False)"

definition orchestrator_effect :: "effect \<Rightarrow> bool" where
  "orchestrator_effect e \<longleftrightarrow> network_or_sleep e \<or> console_line e"

text \<open>What happened between world \<open>w\<close> and a later world \<open>w'\<close>.\<close>

definition new_effects :: "world \<Rightarrow> world \<Rightarrow> effect list" where
  "new_effects w w' = drop (length (trace w)) (trace w')"

text \<open>
  The scoped query as the specification writes it: the query, a space, the \<open>site:\<close> terms
  joined by \<open>OR\<close>, a space, the \<open>-site:\<close> terms joined by a space, all trimmed.
\<close>

definition spec_joined :: "string \<Rightarrow> string list \<Rightarrow> string" where
  "spec_joined sep xs =
     (case xs of [] \<Rightarrow> [] | x # rest \<Rightarrow> x @ concat (map (\<lambda>y. sep @ y) rest))"

definition spec_scoped_query :: "string \<Rightarrow> string list \<Rightarrow> string list \<Rightarrow> string" where
  "spec_scoped_query q I E =
     trim (q @ '' '' @ spec_joined '' OR '' (map (\<lambda>s. ''site:'' @ trim s) I)
             @ '' '' @ spec_joined '' '' (map (\<lambda>e. ''-site:'' @ trim e) E))"

text \<open>
  The sources as the specification writes them: citations lacking a URI are removed, then
  of several citations with one URI only the first is kept, in first-seen order.
\<close>

definition lacks_uri :: "chunk \<Rightarrow> bool" where
  "lacks_uri c \<longleftrightarrow> web c = None \<or> uri (the (web c)) = None \<or> uri (the (web c)) = Some []"

fun keep_first_by_uri :: "web list \<Rightarrow> web list" where
  "keep_first_by_uri [] = []"
| "keep_first_by_uri (x # xs) = x # keep_first_by_uri (filter (\<lambda>y. uri y \<noteq> uri x) xs)"

definition spec_sources :: "chunk list option \<Rightarrow> web list" where
  "spec_sources gc = (case gc of None \<Rightarrow> []
     | Some cs \<Rightarrow> keep_first_by_uri (map (\<lambda>c. the (web c)) (filter (\<lambda>c. \<not> lacks_uri c) cs)))"

section \<open>Concrete inputs\<close>

definition enoent :: js_error where
  "enoent = \<lparr>status = None, code = Some ''ENOENT'', is_Error = True,
             message = ''ENOENT: no such file or directory''\<rparr>"

text \<open>A session with two priority sites and one exclusion, and no state file on disk.\<close>

definition example_world :: world where
  "example_world =
     \<lparr>state = \<lparr>sites = [''a.com'', ''b.com''], excludedSites = [''c.com''],
               morningQuery = Some ''What are the top 3 latest news in technology?''\<rparr>,
      state_file = Inl enoent, write_error = None, trace = []\<rparr>"

definition overloaded_error :: js_error where
  "overloaded_error =
     \<lparr>status = Some 503, code = None, is_Error = True, message = ''The model is overloaded.''\<rparr>"

definition overloaded_key_error :: js_error where
  "overloaded_key_error =
     \<lparr>status = Some 503, code = None, is_Error = True, message = ''API key not valid''\<rparr>"

definition network_error :: js_error where
  "network_error = \<lparr>status = None, code = None, is_Error = True, message = ''fetch failed''\<rparr>"

definition always_throws :: "js_error \<Rightarrow> backend" where
  "always_throws e = (\<lambda>i q. Throws e)"

definition example_response :: response where
  "example_response =
     \<lparr>response_text = ''Answer.'',
      groundingChunks = Some
        [\<lparr>web = Some \<lparr>uri = Some ''a'', title = Some ''A1''\<rparr>\<rparr>,
         \<lparr>web = Some \<lparr>uri = Some ''b'', title = Some ''B''\<rparr>\<rparr>,
         \<lparr>web = Some \<lparr>uri = Some ''a'', title = Some ''A2''\<rparr>\<rparr>]\<rparr>"

definition always_returns :: "response \<Rightarrow> backend" where
  "always_returns r = (\<lambda>i q. Returns r)"

text \<open>A state with an empty list and a morning query of the user's, and its text.\<close>

definition saved_state :: session where
  "saved_state =
     \<lparr>sites = [''a.com'', ''b.com''], excludedSites = [], morningQuery = Some ''ai news''\<rparr>"

definition saved_text :: string where
  \<open>saved_text = join [CHR 0x0A]
     [''{'',
      ''  "sites": ['',
      ''    "a.com",'',
      ''    "b.com"'',
      ''  ],'',
      ''  "excludedSites": [],'',
      ''  "morningQuery": "ai news"'',
      ''}'']\<close>

text \<open>A well-formed file written without a morning query, and a file cut short.\<close>

definition legacy_text :: string where
  \<open>legacy_text = ''{"sites":["a.com"]}''\<close>

definition truncated_text :: string where
  \<open>truncated_text = ''{"sites": [''\<close>

text \<open>
  \<open>JSON.stringify\<close> and \<open>JSON.parse\<close> on the texts above; the examples use no other text,
  and the two functions are not meant beyond them.
\<close>

definition example_stringify :: json_stringify where
  "example_stringify st = (if st = saved_state then saved_text else ''{}'')"

definition example_parse :: json_parse where
  "example_parse data =
     (if data = saved_text then Inr (json_of_state saved_state)
      else if data = legacy_text
        then Inr \<lparr>p_sites = Some [''a.com''], p_excludedSites = None, p_morningQuery = None\<rparr>
      else if data = ''{}''
        then Inr \<lparr>p_sites = None, p_excludedSites = None, p_morningQuery = None\<rparr>
      else Inl ''Unexpected end of JSON input'')"

definition saved_world :: world where
  "saved_world =
     \<lparr>state = saved_state, state_file = Inl enoent, write_error = None, trace = []\<rparr>"

definition legacy_world :: world where
  "legacy_world =
     \<lparr>state = initial_state, state_file = Inr legacy_text, write_error = None, trace = []\<rparr>"

definition truncated_world :: world where
  "truncated_world =
     \<lparr>state = initial_state, state_file = Inr truncated_text, write_error = None, trace = []\<rparr>"

section \<open>The code's query and sources are the specification's\<close>

lemma join_spec_joined: "join sep xs = spec_joined sep xs"
proof (induction sep xs rule: join.induct)
  case (3 sep x y ys)
  then show ?case by (simp add: spec_joined_def)
qed (simp_all add: spec_joined_def)

lemma fullQuery_spec: "fullQuery q I E = spec_scoped_query q I E"
  by (simp add: fullQuery_def spec_scoped_query_def siteSearchQuery_def excludeQuery_def
      join_spec_joined)

lemma find_uri_None: "find (\<lambda>item. uri item = u) acc = None \<longleftrightarrow> u \<notin> uri ` set acc"
  by (auto simp: find_None_iff)

lemma foldl_dedup_step:
  "foldl dedup_step acc xs = acc @ keep_first_by_uri (filter (\<lambda>y. uri y \<notin> uri ` set acc) xs)"
proof (induction xs arbitrary: acc)
  case Nil
  then show ?case by simp
next
  case (Cons x xs)
  show ?case
  proof (cases "uri x \<in> uri ` set acc")
    case True
    then have "dedup_step acc x = acc"
      by (simp add: dedup_step_def find_uri_None)
    with True Cons.IH [of acc] show ?thesis by simp
  next
    case False
    then have step: "dedup_step acc x = acc @ [x]"
      by (simp add: dedup_step_def find_uri_None)
    have "filter (\<lambda>y. uri y \<notin> uri ` set (acc @ [x])) xs =
          filter (\<lambda>y. uri y \<noteq> uri x) (filter (\<lambda>y. uri y \<notin> uri ` set acc) xs)"
      by (auto intro: filter_cong)
    with False step Cons.IH [of "acc @ [x]"] show ?thesis by simp
  qed
qed

lemma filter_has_uri:
  "map the (filter has_uri (map web cs)) = map (\<lambda>c. the (web c)) (filter (\<lambda>c. \<not> lacks_uri c) cs)"
  by (induction cs) (auto simp: has_uri_def lacks_uri_def split: option.splits)

lemma extract_sources_spec: "extract_sources gc = spec_sources gc"
  by (cases gc) (simp_all add: extract_sources_def spec_sources_def foldl_dedup_step filter_has_uri)

section \<open>The retry loop\<close>

lemma attempts_returns:
  "i < 3 \<Longrightarrow> be i (fullQuery q ss es) = Returns r \<Longrightarrow>
   attempts be q ss es i d tr =
     (Inr \<lparr>result_text = response_text r, sources = extract_sources (groundingChunks r)\<rparr>,
      tr @ [Request (fullQuery q ss es)])"
  by (subst attempts.simps) (simp add: MAX_RETRIES_def)

lemma attempts_retry:
  "i < 2 \<Longrightarrow> be i (fullQuery q ss es) = Throws e \<Longrightarrow> status e = Some 503 \<Longrightarrow>
   attempts be q ss es i d tr =
     attempts be q ss es (i + 1) (d * 2)
       (tr @ [Request (fullQuery q ss es), Log_retry d (i + 1) 3, Sleep d])"
  by (subst attempts.simps) (simp add: MAX_RETRIES_def)

lemma attempts_fail:
  "i < 3 \<Longrightarrow> be i (fullQuery q ss es) = Throws e \<Longrightarrow> \<not> (status e = Some 503 \<and> i < 2) \<Longrightarrow>
   attempts be q ss es i d tr =
     (Inl (rethrow_message e),
      tr @ [Request (fullQuery q ss es), Log_error ''Error calling Gemini API:'' e])"
  by (subst attempts.simps) (auto simp add: MAX_RETRIES_def)

lemma attempts_all_503:
  assumes "be 0 (fullQuery q ss es) = Throws e0" "status e0 = Some 503"
      and "be 1 (fullQuery q ss es) = Throws e1" "status e1 = Some 503"
      and "be 2 (fullQuery q ss es) = Throws e2" "status e2 = Some 503"
  shows "attempts be q ss es 0 1000 tr =
     (Inl (rethrow_message e2),
      tr @ [Request (fullQuery q ss es), Log_retry 1000 1 3, Sleep 1000,
            Request (fullQuery q ss es), Log_retry 2000 2 3, Sleep 2000,
            Request (fullQuery q ss es), Log_error ''Error calling Gemini API:'' e2])"
proof -
  have "attempts be q ss es 0 1000 tr =
        attempts be q ss es 1 2000
          (tr @ [Request (fullQuery q ss es), Log_retry 1000 1 3, Sleep 1000])"
    using attempts_retry [of 0 be q ss es e0 1000 tr] assms
    by (simp add: numeral_2_eq_2 numeral_3_eq_3)
  also have "\<dots> = attempts be q ss es 2 4000
          (tr @ [Request (fullQuery q ss es), Log_retry 1000 1 3, Sleep 1000,
                 Request (fullQuery q ss es), Log_retry 2000 2 3, Sleep 2000])"
    using attempts_retry [of 1 be q ss es e1 2000] assms
    by (simp add: numeral_2_eq_2 numeral_3_eq_3)
  also have "\<dots> = (Inl (rethrow_message e2),
      tr @ [Request (fullQuery q ss es), Log_retry 1000 1 3, Sleep 1000,
            Request (fullQuery q ss es), Log_retry 2000 2 3, Sleep 2000,
            Request (fullQuery q ss es), Log_error ''Error calling Gemini API:'' e2])"
    using attempts_fail [of 2 be q ss es e2 4000] assms
    by (simp add: numeral_2_eq_2 numeral_3_eq_3)
  finally show ?thesis .
qed

text \<open>The loop only appends, every request carries the scoped query, and from a counter
  below the bound at least one request is made.\<close>

lemma attempts_extends:
  "\<exists>new. snd (attempts be q ss es i d tr) = tr @ new \<and>
         set (requests new) \<subseteq> {fullQuery q ss es} \<and>
         (i < MAX_RETRIES \<longrightarrow> requests new \<noteq> [])"
proof (induction be q ss es i d tr rule: attempts.induct)
  case (1 be query sites excludedSites i delay tr)
  let ?q = "fullQuery query sites excludedSites"
  show ?case
  proof (cases "i < MAX_RETRIES")
    case False
    then show ?thesis by (subst attempts.simps) simp
  next
    case lt: True
    show ?thesis
    proof (cases "be i ?q")
      case (Returns r)
      with lt show ?thesis by (subst attempts.simps) simp
    next
      case (Throws e)
      show ?thesis
      proof (cases "status e = Some 503 \<and> i < MAX_RETRIES - 1")
        case False
        with lt Throws show ?thesis by (subst attempts.simps) auto
      next
        case True
        from "1.IH" [OF lt refl refl Throws True]
        obtain new where
          new: "snd (attempts be query sites excludedSites (i + 1) (delay * 2)
                  ((tr @ [Request ?q]) @ [Log_retry delay (i + 1) MAX_RETRIES, Sleep delay]))
                = ((tr @ [Request ?q]) @ [Log_retry delay (i + 1) MAX_RETRIES, Sleep delay]) @ new"
          and req: "set (requests new) \<subseteq> {?q}"
          by blast
        have "snd (attempts be query sites excludedSites i delay tr) =
              tr @ ([Request ?q, Log_retry delay (i + 1) MAX_RETRIES, Sleep delay] @ new)"
          using lt Throws True new by (subst attempts.simps) simp
        moreover have "set (requests ([Request ?q, Log_retry delay (i + 1) MAX_RETRIES, Sleep delay] @ new))
              \<subseteq> {?q}"
          using req by simp
        moreover have "requests ([Request ?q, Log_retry delay (i + 1) MAX_RETRIES, Sleep delay] @ new) \<noteq> []"
          by simp
        ultimately show ?thesis by blast
      qed
    qed
  qed
qed

lemma attempts_Inr:
  "attempts be q ss es i d tr = (Inr res, tr') \<Longrightarrow>
   \<exists>j r. i \<le> j \<and> j < MAX_RETRIES \<and> be j (fullQuery q ss es) = Returns r \<and>
         res = \<lparr>result_text = response_text r, sources = extract_sources (groundingChunks r)\<rparr>"
proof (induction be q ss es i d tr rule: attempts.induct)
  case (1 be query sites excludedSites i delay tr)
  let ?q = "fullQuery query sites excludedSites"
  from "1.prems" have lt: "i < MAX_RETRIES"
    by (subst (asm) attempts.simps) (auto split: if_splits)
  show ?case
  proof (cases "be i ?q")
    case (Returns r)
    with lt "1.prems" show ?thesis
      by (subst (asm) attempts.simps) auto
  next
    case (Throws e)
    show ?thesis
    proof (cases "status e = Some 503 \<and> i < MAX_RETRIES - 1")
      case False
      with lt Throws "1.prems" show ?thesis
        by (subst (asm) attempts.simps) auto
    next
      case True
      with lt Throws "1.prems"
      have "attempts be query sites excludedSites (i + 1) (delay * 2)
              ((tr @ [Request ?q]) @ [Log_retry delay (i + 1) MAX_RETRIES, Sleep delay])
            = (Inr res, tr')"
        by (subst (asm) attempts.simps) simp
      from "1.IH" [OF lt refl refl Throws True this]
      obtain j r where "i + 1 \<le> j" "j < MAX_RETRIES"
        "be j ?q = Returns r"
        "res = \<lparr>result_text = response_text r, sources = extract_sources (groundingChunks r)\<rparr>"
        by blast
      moreover from this have "i \<le> j" by simp
      ultimately show ?thesis by blast
    qed
  qed
qed

lemma new_effects_append [simp]: "new_effects w (w\<lparr>trace := trace w @ new\<rparr>) = new"
  by (simp add: new_effects_def)

lemma requests_append: "requests (xs @ ys) = requests xs @ requests ys"
  by (induction xs rule: requests.induct) simp_all

section \<open>Claims about the orchestrator\<close>

text \<open>
  C1, as amended. When every attempt fails with status 503, \<open>scrapeWithGrounding\<close> makes
  exactly three requests, sleeps 1000 ms and then 2000 ms between them (request, sleep,
  request, sleep, request), makes no fourth request and throws: the overload message,
  unless the third error is an \<open>Error\<close> whose message contains \<open>API key not valid\<close>, in
  which case the invalid-key message.
\<close>

theorem overload_exhausts_three_attempts:
  assumes "\<forall>i<MAX_RETRIES. \<exists>e. be i (fullQuery query ss es) = Throws e \<and> status e = Some 503"
  shows "\<exists>e w'. be 2 (fullQuery query ss es) = Throws e \<and>
           scrapeWithGrounding be query ss es w = (Inl (rethrow_message e), w') \<and>
           new_effects w w' =
             [Request (fullQuery query ss es), Log_retry 1000 1 3, Sleep 1000,
              Request (fullQuery query ss es), Log_retry 2000 2 3, Sleep 2000,
              Request (fullQuery query ss es), Log_error ''Error calling Gemini API:'' e] \<and>
           requests (new_effects w w') =
             [fullQuery query ss es, fullQuery query ss es, fullQuery query ss es] \<and>
           sleeps (new_effects w w') = [1000, 2000] \<and>
           rethrow_message e =
             (if is_Error e \<and> includes_str (message e) ''API key not valid''
              then invalid_key_msg else overloaded_msg)"
proof -
  let ?q = "fullQuery query ss es"
  from assms have "\<exists>e. be 0 ?q = Throws e \<and> status e = Some 503"
    by (simp add: MAX_RETRIES_def)
  then obtain e0 where e0: "be 0 ?q = Throws e0" "status e0 = Some 503"
    by blast
  from assms have "\<exists>e. be 1 ?q = Throws e \<and> status e = Some 503"
    by (simp add: MAX_RETRIES_def)
  then obtain e1 where e1: "be 1 ?q = Throws e1" "status e1 = Some 503"
    by blast
  from assms have "\<exists>e. be 2 ?q = Throws e \<and> status e = Some 503"
    by (simp add: MAX_RETRIES_def)
  then obtain e2 where e2: "be 2 ?q = Throws e2" "status e2 = Some 503"
    by blast
  let ?new = "[Request ?q, Log_retry 1000 1 3, Sleep 1000,
               Request ?q, Log_retry 2000 2 3, Sleep 2000,
               Request ?q, Log_error ''Error calling Gemini API:'' e2]"
  have run: "scrapeWithGrounding be query ss es w =
             (Inl (rethrow_message e2), w\<lparr>trace := trace w @ ?new\<rparr>)"
    using attempts_all_503 [of be query ss es e0 e1 e2 "trace w"] e0 e1 e2
    by (simp add: scrapeWithGrounding_def)
  have "new_effects w (w\<lparr>trace := trace w @ ?new\<rparr>) = ?new"
    by simp
  moreover have "requests (new_effects w (w\<lparr>trace := trace w @ ?new\<rparr>)) = [?q, ?q, ?q]"
    by simp
  moreover have "sleeps (new_effects w (w\<lparr>trace := trace w @ ?new\<rparr>)) = [1000, 2000]"
    by simp
  moreover have "rethrow_message e2 =
      (if is_Error e2 \<and> includes_str (message e2) ''API key not valid''
       then invalid_key_msg else overloaded_msg)"
    using e2 by (simp add: rethrow_message_def)
  ultimately show ?thesis using e2 run by blast
qed

text \<open>An overloaded backend that never mentions the key: the overload message is thrown.\<close>

theorem overload_exhausts_three_attempts_witness:
  "fst (scrapeWithGrounding (always_throws overloaded_error) ''X'' [''a.com'', ''b.com'']
          [''c.com''] example_world) = Inl overloaded_msg \<and>
   sleeps (trace (snd (scrapeWithGrounding (always_throws overloaded_error) ''X''
          [''a.com'', ''b.com''] [''c.com''] example_world))) = [1000, 2000] \<and>
   requests (trace (snd (scrapeWithGrounding (always_throws overloaded_error) ''X''
          [''a.com'', ''b.com''] [''c.com''] example_world))) =
     [''X site:a.com OR site:b.com -site:c.com'', ''X site:a.com OR site:b.com -site:c.com'',
      ''X site:a.com OR site:b.com -site:c.com'']"
proof -
  let ?be = "always_throws overloaded_error"
  let ?q = "fullQuery ''X'' [''a.com'', ''b.com''] [''c.com'']"
  have hyp: "\<forall>i<MAX_RETRIES. \<exists>e. ?be i ?q = Throws e \<and> status e = Some 503"
    by (simp add: always_throws_def overloaded_error_def)
  have q: "?q = ''X site:a.com OR site:b.com -site:c.com''"
    by (simp add: fullQuery_def siteSearchQuery_def excludeQuery_def trim_def is_ws_def)
  have tr: "trace example_world = []"
    by (simp add: example_world_def)
  from hyp overload_exhausts_three_attempts
    [of "always_throws overloaded_error" "''X''" "[''a.com'', ''b.com'']" "[''c.com'']"
        example_world]
  obtain e w' where
    e: "?be 2 ?q = Throws e"
    and run: "scrapeWithGrounding ?be ''X'' [''a.com'', ''b.com''] [''c.com''] example_world
              = (Inl (rethrow_message e), w')"
    and req: "requests (new_effects example_world w') = [?q, ?q, ?q]"
    and sl: "sleeps (new_effects example_world w') = [1000, 2000]"
    and msg: "rethrow_message e =
      (if is_Error e \<and> includes_str (message e) ''API key not valid''
       then invalid_key_msg else overloaded_msg)"
    by blast
  from e have "e = overloaded_error"
    by (simp add: always_throws_def)
  with msg have "rethrow_message e = overloaded_msg"
    by (simp add: overloaded_error_def)
  with run req sl q tr show ?thesis
    by (simp add: new_effects_def)
qed

text \<open>
  C1 as stated fails: three 503 errors whose message contains \<open>API key not valid\<close> end
  in the invalid-key message, because the \<open>catch\<close> block tests the message before the
  status.
\<close>

theorem overload_error_counterexample:
  "status overloaded_key_error = Some 503 \<and>
   fst (scrapeWithGrounding (always_throws overloaded_key_error) ''X'' [''a.com'', ''b.com'']
          [''c.com''] example_world) = Inl invalid_key_msg \<and>
   invalid_key_msg \<noteq> overloaded_msg"
proof -
  let ?q = "fullQuery ''X'' [''a.com'', ''b.com''] [''c.com'']"
  have e: "always_throws overloaded_key_error 0 ?q = Throws overloaded_key_error"
      "always_throws overloaded_key_error 1 ?q = Throws overloaded_key_error"
      "always_throws overloaded_key_error 2 ?q = Throws overloaded_key_error"
    by (simp_all add: always_throws_def)
  have s: "status overloaded_key_error = Some 503"
    by (simp add: overloaded_key_error_def)
  have "rethrow_message overloaded_key_error = invalid_key_msg"
    by (simp add: rethrow_message_def overloaded_key_error_def)
  moreover have "invalid_key_msg \<noteq> overloaded_msg"
    by (simp add: invalid_key_msg_def overloaded_msg_def)
  ultimately show ?thesis
    using s e attempts_all_503
      [of "always_throws overloaded_key_error" "''X''" "[''a.com'', ''b.com'']" "[''c.com'']"
          overloaded_key_error overloaded_key_error overloaded_key_error
          "trace example_world"]
    by (simp add: scrapeWithGrounding_def)
qed

lemma scrapeWithGrounding_extends:
  "\<exists>new. snd (scrapeWithGrounding be q ss es w) = w\<lparr>trace := trace w @ new\<rparr> \<and>
         set (requests new) = {fullQuery q ss es}"
proof -
  obtain new where new: "snd (attempts be q ss es 0 1000 (trace w)) = trace w @ new"
    and sub: "set (requests new) \<subseteq> {fullQuery q ss es}"
    and ne: "requests new \<noteq> []"
    using attempts_extends [of be q ss es 0 1000 "trace w"] by (auto simp: MAX_RETRIES_def)
  from ne have "set (requests new) \<noteq> {}" by simp
  with sub have "set (requests new) = {fullQuery q ss es}"
    by (auto simp: subset_singleton_iff)
  moreover have "snd (scrapeWithGrounding be q ss es w) = w\<lparr>trace := trace w @ new\<rparr>"
    using new by (cases "attempts be q ss es 0 1000 (trace w)") (simp add: scrapeWithGrounding_def)
  ultimately show ?thesis by blast
qed

text \<open>
  C2. The scoped query of the code is the one the specification writes, and it is the
  contents of every request of an invocation, which makes at least one. For the query \<open>X\<close>,
  the sites \<open>a.com\<close>, \<open>b.com\<close> and the exclusion \<open>c.com\<close> it is
  \<open>X site:a.com OR site:b.com -site:c.com\<close>, and an empty list of sites gives an empty
  site clause.
\<close>

theorem scoped_query_submitted:
  "fullQuery q I E = spec_scoped_query q I E \<and>
   set (requests (new_effects w (snd (scrapeWithGrounding be q I E w)))) =
     {spec_scoped_query q I E} \<and>
   fullQuery ''X'' [''a.com'', ''b.com''] [''c.com''] = ''X site:a.com OR site:b.com -site:c.com'' \<and>
   siteSearchQuery [] = []"
proof -
  obtain new where "snd (scrapeWithGrounding be q I E w) = w\<lparr>trace := trace w @ new\<rparr>"
    and "set (requests new) = {fullQuery q I E}"
    using scrapeWithGrounding_extends by blast
  then have "set (requests (new_effects w (snd (scrapeWithGrounding be q I E w)))) =
     {spec_scoped_query q I E}"
    by (simp add: fullQuery_spec)
  moreover have "fullQuery ''X'' [''a.com'', ''b.com''] [''c.com''] =
      ''X site:a.com OR site:b.com -site:c.com''"
    by (simp add: fullQuery_def siteSearchQuery_def excludeQuery_def trim_def is_ws_def)
  moreover have "siteSearchQuery [] = []"
    by (simp add: siteSearchQuery_def)
  ultimately show ?thesis
    by (simp add: fullQuery_spec)
qed

text \<open>With no priority site and a query with a leading space, one request is made.\<close>

theorem scoped_query_submitted_witness:
  "requests (trace (snd (scrapeWithGrounding (always_returns example_response) '' news today''
      [] ['' c.com''] example_world))) = [''news today  -site:c.com'']"
proof -
  let ?run = "scrapeWithGrounding (always_returns example_response) '' news today''
      [] ['' c.com''] example_world"
  have q: "spec_scoped_query '' news today'' [] ['' c.com''] = ''news today  -site:c.com''"
    by (simp add: spec_scoped_query_def spec_joined_def trim_def is_ws_def)
  have "set (requests (new_effects example_world (snd ?run))) = {''news today  -site:c.com''}"
    using scoped_query_submitted
      [of "'' news today''" "[]" "['' c.com'']" example_world "always_returns example_response"] q
    by simp
  moreover have "requests (trace (snd ?run)) = [fullQuery '' news today'' [] ['' c.com'']]"
    using attempts_returns [of 0 "always_returns example_response" "'' news today''" "[]"
        "['' c.com'']" example_response 1000 "[]"]
    by (simp add: scrapeWithGrounding_def example_world_def always_returns_def)
  ultimately show ?thesis
    by (simp add: new_effects_def example_world_def)
qed

text \<open>
  C3. A result that \<open>scrapeWithGrounding\<close> returns comes from a response of the backend:
  its text is the response's text, and its sources are the response's citations without
  those lacking a URI and without later citations of a URI already seen, in first-seen
  order. The citations \<open>a/A1\<close>, \<open>b/B\<close>, \<open>a/A2\<close> give the sources \<open>a/A1\<close>, \<open>b/B\<close>.
\<close>

theorem sources_deduplicated:
  assumes "scrapeWithGrounding be query ss es w = (Inr res, w')"
  shows "(\<exists>i r. i < MAX_RETRIES \<and> be i (fullQuery query ss es) = Returns r \<and>
            result_text res = response_text r \<and>
            sources res = spec_sources (groundingChunks r)) \<and>
         extract_sources (groundingChunks example_response) =
           [\<lparr>uri = Some ''a'', title = Some ''A1''\<rparr>, \<lparr>uri = Some ''b'', title = Some ''B''\<rparr>]"
proof -
  from assms have "attempts be query ss es 0 1000 (trace w) = (Inr res, trace w')"
    by (auto simp: scrapeWithGrounding_def split: prod.splits)
  from attempts_Inr [OF this]
  have "\<exists>i r. i < MAX_RETRIES \<and> be i (fullQuery query ss es) = Returns r \<and>
            result_text res = response_text r \<and>
            sources res = spec_sources (groundingChunks r)"
    by (auto simp: extract_sources_spec)
  moreover have "extract_sources (groundingChunks example_response) =
           [\<lparr>uri = Some ''a'', title = Some ''A1''\<rparr>, \<lparr>uri = Some ''b'', title = Some ''B''\<rparr>]"
    by (simp add: extract_sources_def example_response_def has_uri_def dedup_step_def)
  ultimately show ?thesis by blast
qed

text \<open>The backend answers the first request with the three citations.\<close>

theorem sources_deduplicated_witness:
  "fst (scrapeWithGrounding (always_returns example_response) ''X'' [''a.com'', ''b.com'']
          [''c.com''] example_world) =
     Inr \<lparr>result_text = ''Answer.'',
          sources = [\<lparr>uri = Some ''a'', title = Some ''A1''\<rparr>,
                     \<lparr>uri = Some ''b'', title = Some ''B''\<rparr>]\<rparr>"
proof -
  let ?be = "always_returns example_response"
  let ?q = "fullQuery ''X'' [''a.com'', ''b.com''] [''c.com'']"
  let ?run = "scrapeWithGrounding ?be ''X'' [''a.com'', ''b.com''] [''c.com''] example_world"
  have "?be 0 ?q = Returns example_response"
    by (simp add: always_returns_def)
  from attempts_returns [of 0 ?be "''X''" "[''a.com'', ''b.com'']" "[''c.com'']", OF _ this]
  obtain res w' where run: "?run = (Inr res, w')"
    by (simp add: scrapeWithGrounding_def)
  from sources_deduplicated [OF run]
  obtain i r where r: "?be i ?q = Returns r" and "result_text res = response_text r"
    "sources res = spec_sources (groundingChunks r)"
    by blast
  moreover from r have "r = example_response"
    by (simp add: always_returns_def)
  ultimately have "result_text res = ''Answer.''"
    and "sources res = [\<lparr>uri = Some ''a'', title = Some ''A1''\<rparr>,
                        \<lparr>uri = Some ''b'', title = Some ''B''\<rparr>]"
    by (simp_all add: always_returns_def example_response_def spec_sources_def lacks_uri_def)
  with run show ?thesis by simp
qed

text \<open>
  C4, as amended. When the first attempt fails with a status other than 503,
  \<open>scrapeWithGrounding\<close> makes that one request, does not sleep and throws at once: the
  invalid-key message when the error is an \<open>Error\<close> whose message contains
  \<open>API key not valid\<close>, and otherwise the fixed message
  \<open>Failed to fetch data from Gemini API.\<close>; the original error is only logged.
\<close>

theorem non_overload_fails_at_once:
  assumes "be 0 (fullQuery query ss es) = Throws e" and "status e \<noteq> Some 503"
  shows "scrapeWithGrounding be query ss es w =
           (Inl (if is_Error e \<and> includes_str (message e) ''API key not valid''
                 then invalid_key_msg else upstream_msg),
            w\<lparr>trace := trace w @ [Request (fullQuery query ss es),
                                  Log_error ''Error calling Gemini API:'' e]\<rparr>) \<and>
         sleeps (new_effects w (snd (scrapeWithGrounding be query ss es w))) = [] \<and>
         requests (new_effects w (snd (scrapeWithGrounding be query ss es w))) =
           [fullQuery query ss es]"
proof -
  have "attempts be query ss es 0 1000 (trace w) =
        (Inl (rethrow_message e),
         trace w @ [Request (fullQuery query ss es), Log_error ''Error calling Gemini API:'' e])"
    using attempts_fail [of 0 be query ss es e 1000 "trace w"] assms by simp
  moreover have "rethrow_message e =
      (if is_Error e \<and> includes_str (message e) ''API key not valid''
       then invalid_key_msg else upstream_msg)"
    using assms(2) by (simp add: rethrow_message_def)
  ultimately show ?thesis
    by (simp add: scrapeWithGrounding_def)
qed

text \<open>A network failure without a status.\<close>

theorem non_overload_fails_at_once_witness:
  "scrapeWithGrounding (always_throws network_error) ''X'' [''a.com'', ''b.com''] [''c.com'']
     example_world =
     (Inl upstream_msg,
      example_world\<lparr>trace := [Request ''X site:a.com OR site:b.com -site:c.com'',
                                Log_error ''Error calling Gemini API:'' network_error]\<rparr>)"
proof -
  let ?q = "fullQuery ''X'' [''a.com'', ''b.com''] [''c.com'']"
  have e: "always_throws network_error 0 ?q = Throws network_error"
    by (simp add: always_throws_def)
  have s: "status network_error \<noteq> Some 503"
    by (simp add: network_error_def)
  have q: "?q = ''X site:a.com OR site:b.com -site:c.com''"
    by (simp add: fullQuery_def siteSearchQuery_def excludeQuery_def trim_def is_ws_def)
  have m: "\<not> includes_str (message network_error) ''API key not valid''"
    by (simp add: network_error_def)
  have t: "trace example_world = []"
    by (simp add: example_world_def)
  from non_overload_fails_at_once
    [of "always_throws network_error" "''X''" "[''a.com'', ''b.com'']" "[''c.com'']"
        network_error example_world] e s q m t
  show ?thesis by simp
qed

text \<open>
  C4 as stated fails: the message thrown for a network failure does not contain the
  original message \<open>fetch failed\<close>.
\<close>

theorem upstream_error_counterexample:
  "status network_error \<noteq> Some 503 \<and>
   fst (scrapeWithGrounding (always_throws network_error) ''X'' [''a.com'', ''b.com'']
          [''c.com''] example_world) = Inl upstream_msg \<and>
   \<not> includes_str upstream_msg (message network_error)"
proof -
  let ?q = "fullQuery ''X'' [''a.com'', ''b.com''] [''c.com'']"
  have e: "always_throws network_error 0 ?q = Throws network_error"
    by (simp add: always_throws_def)
  have s: "status network_error \<noteq> Some 503"
    by (simp add: network_error_def)
  have "rethrow_message network_error = upstream_msg"
    by (simp add: rethrow_message_def network_error_def)
  then have "fst (scrapeWithGrounding (always_throws network_error) ''X'' [''a.com'', ''b.com'']
          [''c.com''] example_world) = Inl upstream_msg"
    using attempts_fail [of 0 "always_throws network_error" "''X''" "[''a.com'', ''b.com'']"
        "[''c.com'']" network_error 1000 "trace example_world"] e s
    by (simp add: scrapeWithGrounding_def)
  moreover have "\<not> includes_str upstream_msg (message network_error)"
    by (simp add: upstream_msg_def network_error_def)
  ultimately show ?thesis using s by simp
qed

subsection \<open>The orchestrator's frame\<close>

lemma emit_state [simp]: "state (emit e w) = state w"
  and emit_state_file [simp]: "state_file (emit e w) = state_file w"
  and emit_write_error [simp]: "write_error (emit e w) = write_error w"
  by (simp_all add: emit_def)

lemma scrapeWithGrounding_frame:
  "state (snd (scrapeWithGrounding be q ss es w)) = state w \<and>
   state_file (snd (scrapeWithGrounding be q ss es w)) = state_file w \<and>
   write_error (snd (scrapeWithGrounding be q ss es w)) = write_error w"
  by (cases "attempts be q ss es 0 1000 (trace w)") (simp add: scrapeWithGrounding_def)

lemma scrape_and_display_frame:
  "state (scrape_and_display be m q w) = state w \<and>
   state_file (scrape_and_display be m q w) = state_file w"
proof -
  let ?w1 = "emit (Show_processing ''Scraping the web with Gemini...'') w"
  obtain r w' where run:
    "scrapeWithGrounding be q (sites (state w)) (excludedSites (state w)) ?w1 = (r, w')"
    by (cases "scrapeWithGrounding be q (sites (state w)) (excludedSites (state w)) ?w1")
  with scrapeWithGrounding_frame [of be q "sites (state w)" "excludedSites (state w)" ?w1]
  have "state w' = state w" "state_file w' = state_file w"
    by simp_all
  with run show ?thesis
    by (cases r) (simp_all add: scrape_and_display_def)
qed

lemma cmd_scrape_frame:
  "state (cmd_scrape be c args w) = state w \<and>
   state_file (cmd_scrape be c args w) = state_file w"
  by (simp add: cmd_scrape_def Let_def scrape_and_display_frame split: option.splits)

text \<open>
  Every effect of the loop is a request, a sleep or one of its two console lines.
\<close>

lemma attempts_effects:
  "\<exists>new. snd (attempts be q ss es i d tr) = tr @ new \<and> list_all orchestrator_effect new"
proof (induction be q ss es i d tr rule: attempts.induct)
  case (1 be query sites excludedSites i delay tr)
  let ?q = "fullQuery query sites excludedSites"
  show ?case
  proof (cases "i < MAX_RETRIES")
    case False
    then show ?thesis by (subst attempts.simps) simp
  next
    case lt: True
    show ?thesis
    proof (cases "be i ?q")
      case (Returns r)
      with lt show ?thesis
        by (subst attempts.simps)
          (simp add: orchestrator_effect_def network_or_sleep_def)
    next
      case (Throws e)
      show ?thesis
      proof (cases "status e = Some 503 \<and> i < MAX_RETRIES - 1")
        case False
        with lt Throws show ?thesis
          by (subst attempts.simps)
            (auto simp: orchestrator_effect_def network_or_sleep_def console_line_def)
      next
        case True
        let ?round = "[Request ?q, Log_retry delay (i + 1) MAX_RETRIES, Sleep delay]"
        from "1.IH" [OF lt refl refl Throws True]
        obtain new where
          new: "snd (attempts be query sites excludedSites (i + 1) (delay * 2)
                  ((tr @ [Request ?q]) @ [Log_retry delay (i + 1) MAX_RETRIES, Sleep delay]))
                = ((tr @ [Request ?q]) @ [Log_retry delay (i + 1) MAX_RETRIES, Sleep delay]) @ new"
          and all: "list_all orchestrator_effect new"
          by blast
        have "snd (attempts be query sites excludedSites i delay tr) = tr @ (?round @ new)"
          using lt Throws True new by (subst attempts.simps) simp
        moreover have "list_all orchestrator_effect (?round @ new)"
          using all by (simp add: orchestrator_effect_def network_or_sleep_def console_line_def)
        ultimately show ?thesis by blast
      qed
    qed
  qed
qed

text \<open>
  C9, as amended. Whatever the backend does, on success and on failure and after any
  number of retries, \<open>scrapeWithGrounding\<close> changes nothing but the sequence of effects,
  to which it adds only requests, sleeps and the console lines it writes (the retry
  notice before each sleep, the error line before it throws). The session state
  (priority sites, excluded sites, morning query) and the state file are as they were.
\<close>

theorem orchestrator_effects_bounded:
  "\<exists>new. snd (scrapeWithGrounding be query ss es w) = w\<lparr>trace := trace w @ new\<rparr> \<and>
         list_all orchestrator_effect new \<and>
         state (snd (scrapeWithGrounding be query ss es w)) = state w \<and>
         state_file (snd (scrapeWithGrounding be query ss es w)) = state_file w \<and>
         write_error (snd (scrapeWithGrounding be query ss es w)) = write_error w"
proof -
  obtain new where new: "snd (attempts be query ss es 0 1000 (trace w)) = trace w @ new"
    and all: "list_all orchestrator_effect new"
    using attempts_effects [of be query ss es 0 1000 "trace w"] by blast
  have "snd (scrapeWithGrounding be query ss es w) = w\<lparr>trace := trace w @ new\<rparr>"
    using new
    by (cases "attempts be query ss es 0 1000 (trace w)") (simp add: scrapeWithGrounding_def)
  with all show ?thesis
    by (intro exI [of _ new]) simp
qed

text \<open>Three overloaded attempts: the eight effects, all of these kinds.\<close>

theorem orchestrator_effects_bounded_witness:
  "new_effects example_world
     (snd (scrapeWithGrounding (always_throws overloaded_error) ''X'' [''a.com'', ''b.com'']
        [''c.com''] example_world)) =
     [Request ''X site:a.com OR site:b.com -site:c.com'', Log_retry 1000 1 3, Sleep 1000,
      Request ''X site:a.com OR site:b.com -site:c.com'', Log_retry 2000 2 3, Sleep 2000,
      Request ''X site:a.com OR site:b.com -site:c.com'',
      Log_error ''Error calling Gemini API:'' overloaded_error] \<and>
   list_all orchestrator_effect
     (new_effects example_world
        (snd (scrapeWithGrounding (always_throws overloaded_error) ''X'' [''a.com'', ''b.com'']
           [''c.com''] example_world))) \<and>
   state (snd (scrapeWithGrounding (always_throws overloaded_error) ''X'' [''a.com'', ''b.com'']
     [''c.com''] example_world)) = state example_world"
proof -
  let ?be = "always_throws overloaded_error"
  let ?q = "fullQuery ''X'' [''a.com'', ''b.com''] [''c.com'']"
  let ?run = "scrapeWithGrounding ?be ''X'' [''a.com'', ''b.com''] [''c.com''] example_world"
  have q: "?q = ''X site:a.com OR site:b.com -site:c.com''"
    by (simp add: fullQuery_def siteSearchQuery_def excludeQuery_def trim_def is_ws_def)
  have e: "?be 0 ?q = Throws overloaded_error" "?be 1 ?q = Throws overloaded_error"
    "?be 2 ?q = Throws overloaded_error"
    by (simp_all add: always_throws_def)
  have s: "status overloaded_error = Some 503"
    by (simp add: overloaded_error_def)
  have tr: "trace example_world = []"
    by (simp add: example_world_def)
  have eff: "new_effects example_world (snd ?run) =
     [Request ?q, Log_retry 1000 1 3, Sleep 1000, Request ?q, Log_retry 2000 2 3, Sleep 2000,
      Request ?q, Log_error ''Error calling Gemini API:'' overloaded_error]"
    using s e attempts_all_503
      [of ?be "''X''" "[''a.com'', ''b.com'']" "[''c.com'']"
          overloaded_error overloaded_error overloaded_error "trace example_world"] tr
    by (simp add: scrapeWithGrounding_def new_effects_def)
  from orchestrator_effects_bounded
    [of ?be "''X''" "[''a.com'', ''b.com'']" "[''c.com'']" example_world]
  obtain new where "snd ?run = example_world\<lparr>trace := trace example_world @ new\<rparr>"
    and "list_all orchestrator_effect new"
    and "state (snd ?run) = state example_world"
    by blast
  then have "list_all orchestrator_effect (new_effects example_world (snd ?run))"
    and "state (snd ?run) = state example_world"
    by simp_all
  with eff q show ?thesis by simp
qed

text \<open>
  C9 as stated fails: a call that fails on a network error makes one request and writes
  an error line to the console, which is neither the network call nor a sleep.
\<close>

theorem console_lines_counterexample:
  "new_effects example_world
     (snd (scrapeWithGrounding (always_throws network_error) ''X'' [''a.com'', ''b.com'']
        [''c.com''] example_world)) =
     [Request ''X site:a.com OR site:b.com -site:c.com'',
      Log_error ''Error calling Gemini API:'' network_error] \<and>
   \<not> list_all network_or_sleep
     (new_effects example_world
        (snd (scrapeWithGrounding (always_throws network_error) ''X'' [''a.com'', ''b.com'']
           [''c.com''] example_world)))"
proof -
  let ?be = "always_throws network_error"
  let ?q = "fullQuery ''X'' [''a.com'', ''b.com''] [''c.com'']"
  let ?run = "scrapeWithGrounding ?be ''X'' [''a.com'', ''b.com''] [''c.com''] example_world"
  have q: "?q = ''X site:a.com OR site:b.com -site:c.com''"
    by (simp add: fullQuery_def siteSearchQuery_def excludeQuery_def trim_def is_ws_def)
  have e: "?be 0 ?q = Throws network_error"
    by (simp add: always_throws_def)
  have s: "\<not> (status network_error = Some 503 \<and> (0::nat) < 2)"
    by (simp add: network_error_def)
  have tr: "trace example_world = []"
    by (simp add: example_world_def)
  have eff: "new_effects example_world (snd ?run) =
     [Request ?q, Log_error ''Error calling Gemini API:'' network_error]"
    using attempts_fail [of 0 ?be "''X''" "[''a.com'', ''b.com'']" "[''c.com'']" network_error
        1000 "trace example_world"] e s tr
    by (simp add: scrapeWithGrounding_def new_effects_def)
  then show ?thesis
    using q by (simp add: network_or_sleep_def)
qed

section \<open>Claims about persistence\<close>

lemma spread_json_of_state: "spread_loaded (json_of_state st) = st"
  by (simp add: spread_loaded_def json_of_state_def)

text \<open>
  C7. When the write succeeds and the platform's \<open>JSON\<close> functions return for the text of
  the state the object it denotes, \<open>saveState\<close> followed by a restart and \<open>loadState\<close>
  gives back the very state that was saved: any two lists, empty or not, and any morning
  query.
\<close>

theorem save_load_roundtrip:
  assumes "write_error w = None"
      and "JSON_parse (JSON_stringify (state w)) = Inr (json_of_state (state w))"
  shows "\<exists>w'. loadState JSON_parse (restart (saveState JSON_stringify w)) = Inr w' \<and>
              state w' = state w"
proof -
  from assms(1) have "state_file (restart (saveState JSON_stringify w)) =
      Inr (JSON_stringify (state w))"
    by (simp add: saveState_def restart_def)
  with assms(2) have "loadState_try JSON_parse (restart (saveState JSON_stringify w)) =
      Inr ((restart (saveState JSON_stringify w))\<lparr>state := state w\<rparr>)"
    by (simp add: loadState_try_def spread_json_of_state)
  then show ?thesis
    by (simp add: loadState_def)
qed

text \<open>A state with an empty exclusion list and a morning query of the user's.\<close>

theorem save_load_roundtrip_witness:
  "state saved_world = saved_state \<and>
   state (restart (saveState example_stringify saved_world)) = initial_state \<and>
   (\<exists>w'. loadState example_parse (restart (saveState example_stringify saved_world)) = Inr w' \<and>
         state w' = saved_state)"
proof -
  have w: "write_error saved_world = None" and s: "state saved_world = saved_state"
    by (simp_all add: saved_world_def)
  have "example_parse (example_stringify (state saved_world)) =
        Inr (json_of_state (state saved_world))"
    by (simp add: s example_parse_def example_stringify_def)
  with w save_load_roundtrip [of saved_world example_parse example_stringify] s show ?thesis
    by (simp add: restart_def)
qed

text \<open>
  C8. \<open>loadState\<close> always returns normally. Run on the initial state, as \<open>main\<close> does: when
  reading fails with code \<open>ENOENT\<close> nothing is logged and nothing changes; when the text
  does not parse, the error is logged and the state is still the initial one.
\<close>

theorem load_failure_keeps_defaults:
  assumes "state w = initial_state"
  shows "(\<exists>w'. loadState JSON_parse w = Inr w') \<and>
         (state_file w = Inl e \<and> code e = Some ''ENOENT'' \<longrightarrow>
            loadState JSON_parse w = Inr w) \<and>
         (state_file w = Inr data \<and> JSON_parse data = Inl m \<longrightarrow>
            loadState JSON_parse w =
              Inr (emit (Log_error ''Error loading state:'' (SyntaxError m)) w) \<and>
            state (emit (Log_error ''Error loading state:'' (SyntaxError m)) w) = initial_state)"
proof -
  have "\<exists>w'. loadState JSON_parse w = Inr w'"
    by (simp add: loadState_def split: sum.splits)
  moreover have "loadState JSON_parse w = Inr w"
    if "state_file w = Inl e" "code e = Some ''ENOENT''"
    using that by (simp add: loadState_def loadState_try_def)
  moreover have "loadState JSON_parse w =
      Inr (emit (Log_error ''Error loading state:'' (SyntaxError m)) w)"
    if "state_file w = Inr data" "JSON_parse data = Inl m"
    using that by (simp add: loadState_def loadState_try_def SyntaxError_def)
  moreover have "state (emit (Log_error ''Error loading state:'' (SyntaxError m)) w) = initial_state"
    using assms by (simp add: emit_def)
  ultimately show ?thesis by blast
qed

text \<open>A first start without a file, and a start on a file cut short.\<close>

theorem load_failure_keeps_defaults_witness:
  "loadState example_parse (restart example_world) = Inr (restart example_world) \<and>
   state (restart example_world) = initial_state \<and>
   trace (restart example_world) = [] \<and>
   loadState example_parse truncated_world =
     Inr (truncated_world\<lparr>trace := [Log_error ''Error loading state:''
            (SyntaxError ''Unexpected end of JSON input'')]\<rparr>) \<and>
   state truncated_world = initial_state"
proof -
  have 1: "state (restart example_world) = initial_state"
    by (simp add: restart_def)
  have 2: "state_file (restart example_world) = Inl enoent \<and> code enoent = Some ''ENOENT''"
    by (simp add: restart_def example_world_def enoent_def)
  have 3: "state truncated_world = initial_state"
    by (simp add: truncated_world_def)
  have 4: "state_file truncated_world = Inr truncated_text \<and>
           example_parse truncated_text = Inl ''Unexpected end of JSON input''"
    by (simp add: truncated_world_def example_parse_def truncated_text_def saved_text_def
        legacy_text_def)
  have 5: "trace truncated_world = []"
    by (simp add: truncated_world_def)
  from load_failure_keeps_defaults [OF 1, of example_parse enoent] 2
  have a: "loadState example_parse (restart example_world) = Inr (restart example_world)"
    by blast
  from load_failure_keeps_defaults [OF 3, of example_parse _ truncated_text
      "''Unexpected end of JSON input''"] 4
  have b: "loadState example_parse truncated_world =
      Inr (emit (Log_error ''Error loading state:''
            (SyntaxError ''Unexpected end of JSON input'')) truncated_world)"
    by blast
  from a b 1 3 5 show ?thesis
    by (simp add: emit_def restart_def)
qed

section \<open>Claims about the dispatcher\<close>

lemma processCommand_scrape:
  assumes "split CHR '' '' (trim line) = cmd # args"
      and "toLowerCase cmd = ''scrape'' \<or> toLowerCase cmd = ''scrape-morning''"
  shows "processCommand be JSON_stringify line w = (False, cmd_scrape be (toLowerCase cmd) args w)"
proof -
  from assms(2) have "cmd \<noteq> []"
    by (auto simp: toLowerCase_def)
  with assms show ?thesis
    by (auto simp: processCommand_def Let_def)
qed

lemma scrape_and_display_requests:
  "set (requests (new_effects w (scrape_and_display be m q w))) =
     {fullQuery q (sites (state w)) (excludedSites (state w))}"
proof -
  let ?w1 = "emit (Show_processing ''Scraping the web with Gemini...'') w"
  let ?run = "scrapeWithGrounding be q (sites (state w)) (excludedSites (state w)) ?w1"
  obtain new where new: "snd ?run = ?w1\<lparr>trace := trace ?w1 @ new\<rparr>"
    and req: "set (requests new) = {fullQuery q (sites (state w)) (excludedSites (state w))}"
    using scrapeWithGrounding_extends [of be q "sites (state w)" "excludedSites (state w)" ?w1]
    by blast
  obtain r w' where run: "?run = (r, w')"
    by (cases ?run)
  with new have w': "w' = ?w1\<lparr>trace := trace ?w1 @ new\<rparr>"
    by simp
  have "\<exists>last. trace (scrape_and_display be m q w) =
          trace w @ [Show_processing ''Scraping the web with Gemini...''] @ new
            @ [Stop_processing, last] \<and> requests [last] = []"
    using run w' by (cases r) (simp_all add: scrape_and_display_def emit_def)
  then obtain last where
    "trace (scrape_and_display be m q w) =
       trace w @ [Show_processing ''Scraping the web with Gemini...''] @ new
         @ [Stop_processing, last]"
    and "requests [last] = []"
    by blast
  then have "requests (new_effects w (scrape_and_display be m q w)) = requests new"
    by (simp add: new_effects_def requests_append)
  with req show ?thesis by simp
qed

text \<open>
  C6. For a line whose verb is \<open>scrape\<close> or \<open>scrape-morning\<close> in any letter case: with no
  priority site the command prints the fixed error line and does nothing else, so no
  request is made; with a priority site and an empty or undefined query (the joined
  arguments for \<open>scrape\<close>, the stored morning query for \<open>scrape-morning\<close>) it prints the
  usage line and does nothing else; with a non-empty query it calls the orchestrator, whose
  requests all carry that query scoped by the stored lists.
\<close>

theorem scrape_guards:
  assumes "split CHR '' '' (trim line) = cmd # args"
      and "toLowerCase cmd = ''scrape'' \<or> toLowerCase cmd = ''scrape-morning''"
  shows "(sites (state w) = [] \<longrightarrow>
            processCommand be JSON_stringify line w = (False, emit (Log no_sites_msg) w) \<and>
            requests (new_effects w (snd (processCommand be JSON_stringify line w))) = []) \<and>
         (sites (state w) \<noteq> [] \<longrightarrow>
            (let query = (if toLowerCase cmd = ''scrape-morning'' then morningQuery (state w)
                          else Some (join '' '' args))
             in (query = None \<or> query = Some [] \<longrightarrow>
                   processCommand be JSON_stringify line w =
                     (False, emit (Log scrape_usage_msg) w) \<and>
                   requests (new_effects w (snd (processCommand be JSON_stringify line w))) = []) \<and>
                (\<forall>q. query = Some q \<and> q \<noteq> [] \<longrightarrow>
                   processCommand be JSON_stringify line w =
                     (False, scrape_and_display be (toLowerCase cmd = ''scrape-morning'') q w) \<and>
                   set (requests (new_effects w (snd (processCommand be JSON_stringify line w)))) =
                     {fullQuery q (sites (state w)) (excludedSites (state w))})))"
proof -
  have run: "processCommand be JSON_stringify line w =
             (False, cmd_scrape be (toLowerCase cmd) args w)"
    using assms by (rule processCommand_scrape)
  have quiet: "requests (new_effects w (emit (Log m) w)) = []" for m
    by (simp add: new_effects_def emit_def)
  show ?thesis
    unfolding run
    by (auto simp: cmd_scrape_def Let_def scrape_and_display_requests quiet)
qed

lemma lower_fixed:
  "toLowerCase ''scrape'' = ''scrape''"
  "toLowerCase ''Scrape-Morning'' = ''scrape-morning''"
  "toLowerCase ''scrape-morning'' = ''scrape-morning''"
  "toLowerCase ''add-site'' = ''add-site''"
  by code_simp+

text \<open>The three cases on concrete lines.\<close>

theorem scrape_guards_witness:
  "processCommand (always_returns example_response) example_stringify ''Scrape-Morning''
     legacy_world = (False, emit (Log no_sites_msg) legacy_world) \<and>
   processCommand (always_returns example_response) example_stringify ''scrape '' example_world
     = (False, emit (Log scrape_usage_msg) example_world) \<and>
   requests (trace (snd (processCommand (always_returns example_response) example_stringify
     ''scrape chip news'' example_world))) = [''chip news site:a.com OR site:b.com -site:c.com'']"
proof -
  let ?be = "always_returns example_response"
  have p1: "split CHR '' '' (trim ''Scrape-Morning'') = ''Scrape-Morning'' # []"
    and p2: "split CHR '' '' (trim ''scrape '') = ''scrape'' # []"
    and p3: "split CHR '' '' (trim ''scrape chip news'') = ''scrape'' # [''chip'', ''news'']"
    by (simp_all add: trim_def is_ws_def)
  have s1: "sites (state legacy_world) = []"
    by (simp add: legacy_world_def initial_state_def)
  have s2: "sites (state example_world) \<noteq> []" "sites (state example_world) = [''a.com'', ''b.com'']"
    "excludedSites (state example_world) = [''c.com'']" "trace example_world = []"
    by (simp_all add: example_world_def)
  have a: "processCommand ?be example_stringify ''Scrape-Morning'' legacy_world =
        (False, emit (Log no_sites_msg) legacy_world)"
    using scrape_guards [where be = ?be and JSON_stringify = example_stringify
        and w = legacy_world, OF p1] s1 lower_fixed
    by simp
  have b: "processCommand ?be example_stringify ''scrape '' example_world =
        (False, emit (Log scrape_usage_msg) example_world)"
    using scrape_guards [where be = ?be and JSON_stringify = example_stringify
        and w = example_world, OF p2] s2 lower_fixed
    by (simp add: Let_def)
  have q: "fullQuery ''chip news'' [''a.com'', ''b.com''] [''c.com''] =
           ''chip news site:a.com OR site:b.com -site:c.com''"
    by (simp add: fullQuery_def siteSearchQuery_def excludeQuery_def trim_def is_ws_def)
  have c: "processCommand ?be example_stringify ''scrape chip news'' example_world =
        (False, scrape_and_display ?be False ''chip news'' example_world)"
    using scrape_guards [where be = ?be and JSON_stringify = example_stringify
        and w = example_world, OF p3] s2 lower_fixed
    by (simp add: Let_def)
  have "?be 0 (fullQuery ''chip news'' [''a.com'', ''b.com''] [''c.com'']) = Returns example_response"
    by (simp add: always_returns_def)
  from attempts_returns [of 0 ?be "''chip news''" "[''a.com'', ''b.com'']" "[''c.com'']", OF _ this]
  have "requests (trace (scrape_and_display ?be False ''chip news'' example_world)) =
      [''chip news site:a.com OR site:b.com -site:c.com'']"
    using s2 q by (simp add: scrape_and_display_def scrapeWithGrounding_def emit_def)
  with a b c show ?thesis by simp
qed

text \<open>
  C10. When the state file parses to an object without \<open>morningQuery\<close>, \<open>loadState\<close> puts
  a state in place whose \<open>morningQuery\<close> is undefined, not the default of the initial
  state; only \<open>sites\<close> and \<open>excludedSites\<close> are filled in when absent. With a priority
  site, \<open>scrape-morning\<close> then prints the usage line and makes no request.
\<close>

theorem load_without_morningQuery:
  assumes "state_file w = Inr data" and "JSON_parse data = Inr loaded"
      and "p_morningQuery loaded = None"
  shows "\<exists>w'. loadState JSON_parse w = Inr w' \<and>
           morningQuery (state w') = None \<and>
           morningQuery (state w') \<noteq> morningQuery initial_state \<and>
           sites (state w') = (case p_sites loaded of None \<Rightarrow> [] | Some x \<Rightarrow> x) \<and>
           excludedSites (state w') =
             (case p_excludedSites loaded of None \<Rightarrow> [] | Some x \<Rightarrow> x) \<and>
           (sites (state w') \<noteq> [] \<longrightarrow>
              processCommand be JSON_stringify ''scrape-morning'' w' =
                (False, emit (Log scrape_usage_msg) w'))"
proof -
  let ?w' = "w\<lparr>state := spread_loaded loaded\<rparr>"
  have load: "loadState JSON_parse w = Inr ?w'"
    using assms by (simp add: loadState_def loadState_try_def)
  have mq: "morningQuery (state ?w') = None"
    using assms(3) by (simp add: spread_loaded_def)
  have "split CHR '' '' (trim ''scrape-morning'') = ''scrape-morning'' # []"
    by (simp add: trim_def is_ws_def)
  moreover have "toLowerCase ''scrape-morning'' = ''scrape-morning''"
    by code_simp
  ultimately have "processCommand be JSON_stringify ''scrape-morning'' ?w' =
      (False, cmd_scrape be ''scrape-morning'' [] ?w')"
    using processCommand_scrape [of "''scrape-morning''" "''scrape-morning''" "[]" be
        JSON_stringify ?w']
    by simp
  with mq have "sites (state ?w') \<noteq> [] \<longrightarrow>
      processCommand be JSON_stringify ''scrape-morning'' ?w' =
        (False, emit (Log scrape_usage_msg) ?w')"
    by (simp add: cmd_scrape_def)
  with load mq show ?thesis
    by (simp add: spread_loaded_def initial_state_def)
qed

text \<open>A file that holds one site and nothing else.\<close>

theorem load_without_morningQuery_witness:
  "\<exists>w'. loadState example_parse legacy_world = Inr w' \<and>
         state w' = \<lparr>sites = [''a.com''], excludedSites = [], morningQuery = None\<rparr> \<and>
         processCommand (always_returns example_response) example_stringify ''scrape-morning'' w'
           = (False, emit (Log scrape_usage_msg) w')"
proof -
  have f: "state_file legacy_world = Inr legacy_text"
    by (simp add: legacy_world_def)
  have p: "example_parse legacy_text =
      Inr \<lparr>p_sites = Some [''a.com''], p_excludedSites = None, p_morningQuery = None\<rparr>"
    by (simp add: example_parse_def legacy_text_def saved_text_def)
  from f p load_without_morningQuery
    [where w = legacy_world and JSON_parse = example_parse and data = legacy_text
       and be = "always_returns example_response" and JSON_stringify = example_stringify]
  obtain w' where "loadState example_parse legacy_world = Inr w'"
    "morningQuery (state w') = None" "sites (state w') = [''a.com'']"
    "excludedSites (state w') = []"
    "processCommand (always_returns example_response) example_stringify ''scrape-morning'' w'
           = (False, emit (Log scrape_usage_msg) w')"
    by auto
  then show ?thesis by auto
qed

subsection \<open>\<open>add-site\<close>\<close>

text \<open>
  The two arrays filled by \<open>forEach\<close> are the arguments outside and inside the current
  list, each in argument order, and the new list is the old one followed by the former.
\<close>

lemma classify_args_foldl:
  "foldl (\<lambda>(added, duplicates) s.
            if s \<in> set current then (added, duplicates @ [s]) else (added @ [s], duplicates))
     (a, d) args =
   (a @ filter (\<lambda>s. s \<notin> set current) args, d @ filter (\<lambda>s. s \<in> set current) args)"
  by (induction args arbitrary: a d) simp_all

lemma classify_args_filter:
  "classify_args current args =
     (filter (\<lambda>s. s \<notin> set current) args, filter (\<lambda>s. s \<in> set current) args)"
  by (simp add: classify_args_def classify_args_foldl)

lemma saveState_state [simp]: "state (saveState JSON_stringify w) = state w"
  by (simp add: saveState_def emit_def split: option.splits)

lemma cmd_add_site_sites:
  "sites (state (cmd_add_site JSON_stringify args w)) =
     sites (state w) @ filter (\<lambda>s. s \<notin> set (sites (state w))) args"
  by (simp add: cmd_add_site_def classify_args_filter Let_def)

lemma cmd_add_site_others:
  "excludedSites (state (cmd_add_site JSON_stringify args w)) = excludedSites (state w) \<and>
   morningQuery (state (cmd_add_site JSON_stringify args w)) = morningQuery (state w)"
  by (simp add: cmd_add_site_def classify_args_filter Let_def)

lemma cmd_add_site_distinct:
  "distinct (sites (state w)) \<Longrightarrow> distinct args \<Longrightarrow>
   distinct (sites (state (cmd_add_site JSON_stringify args w)))"
  by (auto simp: cmd_add_site_sites)

lemma processCommand_add_site:
  assumes "split CHR '' '' (trim line) = cmd # args" and "toLowerCase cmd = ''add-site''"
  shows "processCommand be JSON_stringify line w = (False, cmd_add_site JSON_stringify args w)"
proof -
  from assms(2) have "cmd \<noteq> []"
    by (auto simp: toLowerCase_def)
  with assms show ?thesis
    by (simp add: processCommand_def Let_def)
qed

text \<open>
  C5 fails on the code. Each argument is compared with the list as it was before the
  command, so an argument given twice is added twice: from the empty list,
  \<open>add-site a.com a.com\<close> leaves a list with a duplicate. (When the arguments are pairwise
  distinct the list stays duplicate-free, \<open>cmd_add_site_distinct\<close>.)
\<close>

theorem add_site_repeated_argument:
  "sites (state (restart example_world)) = [] \<and>
   sites (state (snd (processCommand be JSON_stringify ''add-site a.com a.com''
      (restart example_world)))) = [''a.com'', ''a.com''] \<and>
   \<not> distinct (sites (state (snd (processCommand be JSON_stringify ''add-site a.com a.com''
      (restart example_world)))))"
proof -
  have "split CHR '' '' (trim ''add-site a.com a.com'') = ''add-site'' # [''a.com'', ''a.com'']"
    by (simp add: trim_def is_ws_def)
  moreover have "toLowerCase ''add-site'' = ''add-site''"
    by code_simp
  ultimately have "processCommand be JSON_stringify ''add-site a.com a.com''
      (restart example_world) =
      (False, cmd_add_site JSON_stringify [''a.com'', ''a.com''] (restart example_world))"
    by (rule processCommand_add_site)
  moreover have "sites (state (restart example_world)) = []"
    by (simp add: restart_def initial_state_def)
  ultimately show ?thesis
    by (simp add: cmd_add_site_sites)
qed

section \<open>The browser variant\<close>

text \<open>
  \<open>Terminal.tsx\<close> has the same tests as the terminal variant for \<open>scrape\<close> and the same
  bookkeeping for \<open>add-site\<close>. Its \<open>scrape-morning\<close> does not test the query, which is
  never empty there.
\<close>

lemma initial_morningQuery_nonempty: "initial_morningQuery stored \<noteq> []"
  by (simp add: initial_morningQuery_def split: option.splits)

lemma set_output_fields [simp]:
  "t_sites (set_output command r) = t_sites (snd r)"
  "t_excludedSites (set_output command r) = t_excludedSites (snd r)"
  "t_morningQuery (set_output command r) = t_morningQuery (snd r)"
  "t_effects (set_output command r) = t_effects (snd r)"
  by (cases r; simp add: set_output_def)+

lemma web_branches_morningQuery:
  "t_morningQuery (snd (web_add_site args t)) = t_morningQuery t"
  "t_morningQuery (snd (web_list_sites t)) = t_morningQuery t"
  "t_morningQuery (snd (web_remove_site args t)) = t_morningQuery t"
  "t_morningQuery (snd (web_clear_sites t)) = t_morningQuery t"
  "t_morningQuery (snd (web_add_exclude args t)) = t_morningQuery t"
  "t_morningQuery (snd (web_list_excludes t)) = t_morningQuery t"
  "t_morningQuery (snd (web_remove_exclude args t)) = t_morningQuery t"
  "t_morningQuery (snd (web_clear_excludes t)) = t_morningQuery t"
  "t_morningQuery (snd (web_scrape be args t)) = t_morningQuery t"
  "t_morningQuery (snd (web_scrape_morning be t)) = t_morningQuery t"
  by (simp_all add: web_add_site_def web_list_sites_def web_remove_site_def web_clear_sites_def
      web_add_exclude_def web_list_excludes_def web_remove_exclude_def web_clear_excludes_def
      web_scrape_def web_scrape_morning_def Let_def
      split: prod.splits list.splits sum.splits)

lemma web_set_morning_query_nonempty:
  "t_morningQuery t \<noteq> [] \<Longrightarrow> t_morningQuery (snd (web_set_morning_query args t)) \<noteq> []"
  by (simp add: web_set_morning_query_def Let_def)

text \<open>In the browser the morning query is never empty.\<close>

lemma web_morningQuery_nonempty:
  assumes "t_morningQuery t \<noteq> []"
  shows "t_morningQuery (processCommand_web be command t) \<noteq> []"
proof (cases "split CHR '' '' (trim command)")
  case Nil
  with assms show ?thesis by (simp add: processCommand_web_def)
next
  case (Cons cmd args)
  let ?t1 = "t\<lparr>t_history := t_history t @
               [\<lparr>h_command = command, h_output = Text [], h_isProcessing = True\<rparr>]\<rparr>"
  have t1: "t_morningQuery ?t1 \<noteq> []"
    using assms by simp
  from web_set_morning_query_nonempty [OF t1]
  have "t_morningQuery (snd (web_set_morning_query args ?t1)) \<noteq> []" .
  with t1 Cons show ?thesis
    by (simp add: processCommand_web_def Let_def web_branches_morningQuery)
qed

lemma web_scrape_no_sites:
  "t_sites t = [] \<Longrightarrow> web_scrape be args t = (Text web_no_sites_msg, t)"
  "t_sites t = [] \<Longrightarrow> web_scrape_morning be t = (Text web_no_sites_msg, t)"
  by (simp_all add: web_scrape_def web_scrape_morning_def)

lemma web_scrape_usage:
  "t_sites t \<noteq> [] \<Longrightarrow> join '' '' args = [] \<Longrightarrow>
   web_scrape be args t = (Text ''Usage: scrape <query>'', t)"
  by (simp add: web_scrape_def)

lemma scrapeWithGrounding_web_requests:
  "\<exists>new. snd (scrapeWithGrounding_web be q ss es tr) = tr @ new \<and>
         set (requests new) = {fullQuery q ss es}"
proof -
  obtain new where new: "snd (attempts be q ss es 0 1000 tr) = tr @ new"
    and sub: "set (requests new) \<subseteq> {fullQuery q ss es}"
    and ne: "requests new \<noteq> []"
    using attempts_extends [of be q ss es 0 1000 tr] by (auto simp: MAX_RETRIES_def)
  from ne have "set (requests new) \<noteq> {}" by simp
  with sub have "set (requests new) = {fullQuery q ss es}"
    by (auto simp: subset_singleton_iff)
  with new show ?thesis
    by (auto simp: scrapeWithGrounding_web_def)
qed

lemma web_scrape_invokes:
  assumes "t_sites t \<noteq> []" and "join '' '' args \<noteq> []"
  shows "set (requests (drop (length (t_effects t)) (t_effects (snd (web_scrape be args t))))) =
           {fullQuery (join '' '' args) (t_sites t) (t_excludedSites t)}"
proof -
  let ?run = "scrapeWithGrounding_web be (join '' '' args) (t_sites t) (t_excludedSites t)
                (t_effects t)"
  obtain new where "snd ?run = t_effects t @ new"
    and "set (requests new) = {fullQuery (join '' '' args) (t_sites t) (t_excludedSites t)}"
    using scrapeWithGrounding_web_requests by blast
  moreover obtain r tr where "?run = (r, tr)"
    by (cases ?run)
  ultimately show ?thesis
    using assms by (cases r) (simp_all add: web_scrape_def)
qed

lemma web_scrape_morning_invokes:
  assumes "t_sites t \<noteq> []"
  shows "set (requests (drop (length (t_effects t)) (t_effects (snd (web_scrape_morning be t))))) =
           {fullQuery (t_morningQuery t) (t_sites t) (t_excludedSites t)}"
proof -
  let ?run = "scrapeWithGrounding_web be (t_morningQuery t) (t_sites t) (t_excludedSites t)
                (t_effects t)"
  obtain new where "snd ?run = t_effects t @ new"
    and "set (requests new) = {fullQuery (t_morningQuery t) (t_sites t) (t_excludedSites t)}"
    using scrapeWithGrounding_web_requests by blast
  moreover obtain r tr where "?run = (r, tr)"
    by (cases ?run)
  ultimately show ?thesis
    using assms by (cases r) (simp_all add: web_scrape_morning_def)
qed

lemma web_add_site_sites:
  "t_sites (snd (web_add_site args t)) =
     t_sites t @ filter (\<lambda>s. s \<notin> set (t_sites t)) args"
  by (simp add: web_add_site_def classify_args_filter)

lemma web_add_site_repeated_argument:
  "t_sites (processCommand_web be ''add-site a.com a.com''
     \<lparr>t_sites = [], t_excludedSites = [], t_morningQuery = initial_morningQuery None,
      t_history = [], t_effects = []\<rparr>) = [''a.com'', ''a.com'']"
proof -
  have "split CHR '' '' (trim ''add-site a.com a.com'') = ''add-site'' # [''a.com'', ''a.com'']"
    by (simp add: trim_def is_ws_def)
  moreover have "toLowerCase ''add-site'' = ''add-site''"
    by code_simp
  ultimately show ?thesis
    by (simp add: processCommand_web_def Let_def web_add_site_sites)
qed

end
